theory Spec2Isabelle
  imports Complex_Main
begin

section \<open>Floating-point values, idealised\<close>

text \<open>
  The simulator \<^verbatim>\<open>assigment1.py\<close> computes with numpy \<^verbatim>\<open>float64\<close> values. The model
  computes with exact reals: a value \<open>Fin x\<close> is the float whose exact value is \<open>x\<close>
  (no rounding, no overflow). numpy does not raise on a division by zero or on a
  function applied outside its real domain: it continues with \<^verbatim>\<open>inf\<close> or \<^verbatim>\<open>nan\<close>.
  The model has the single value \<open>NonFin\<close> for both, and \<open>NonFin\<close> is absorbing:
  the model does not follow a computation that went through \<^verbatim>\<open>inf\<close> or \<^verbatim>\<open>nan\<close>
  (IEEE arithmetic can come back from there, as in \<^verbatim>\<open>exp(-inf) = 0\<close>). So a result
  \<open>Fin x\<close> of the model is the exact-arithmetic result of the code, and a result
  \<open>NonFin\<close> says that the code left the finite reals on the way.
\<close>

datatype fl = Fin real | NonFin

instantiation fl :: "{plus, minus, uminus, times, inverse, abs}"
begin

definition plus_fl_def:
  "(u::fl) + v = (case u of Fin x \<Rightarrow> (case v of Fin y \<Rightarrow> Fin (x + y) | NonFin \<Rightarrow> NonFin) | NonFin \<Rightarrow> NonFin)"

definition minus_fl_def:
  "(u::fl) - v = (case u of Fin x \<Rightarrow> (case v of Fin y \<Rightarrow> Fin (x - y) | NonFin \<Rightarrow> NonFin) | NonFin \<Rightarrow> NonFin)"

definition uminus_fl_def:
  "- (u::fl) = (case u of Fin x \<Rightarrow> Fin (- x) | NonFin \<Rightarrow> NonFin)"

definition times_fl_def:
  "(u::fl) * v = (case u of Fin x \<Rightarrow> (case v of Fin y \<Rightarrow> Fin (x * y) | NonFin \<Rightarrow> NonFin) | NonFin \<Rightarrow> NonFin)"

definition divide_fl_def:
  "divide (u::fl) v = (case u of Fin x \<Rightarrow>
              (case v of Fin y \<Rightarrow> if y = 0 then NonFin else Fin (x / y) | NonFin \<Rightarrow> NonFin)
            | NonFin \<Rightarrow> NonFin)"

definition inverse_fl_def:
  "inverse (u::fl) = (case u of Fin x \<Rightarrow> if x = 0 then NonFin else Fin (inverse x) | NonFin \<Rightarrow> NonFin)"

definition abs_fl_def:
  "\<bar>u::fl\<bar> = (case u of Fin x \<Rightarrow> Fin \<bar>x\<bar> | NonFin \<Rightarrow> NonFin)"

instance ..

end

text \<open>The numpy functions the simulator calls; \<^verbatim>\<open>np.sqrt\<close> and \<^verbatim>\<open>np.arccos\<close> return
  \<^verbatim>\<open>nan\<close> outside their domain.\<close>

definition np_sqrt :: "fl \<Rightarrow> fl" where
  "np_sqrt u = (case u of Fin x \<Rightarrow> if 0 \<le> x then Fin (sqrt x) else NonFin | NonFin \<Rightarrow> NonFin)"

definition np_exp :: "fl \<Rightarrow> fl" where
  "np_exp u = (case u of Fin x \<Rightarrow> Fin (exp x) | NonFin \<Rightarrow> NonFin)"

definition np_sin :: "fl \<Rightarrow> fl" where
  "np_sin u = (case u of Fin x \<Rightarrow> Fin (sin x) | NonFin \<Rightarrow> NonFin)"

definition np_cos :: "fl \<Rightarrow> fl" where
  "np_cos u = (case u of Fin x \<Rightarrow> Fin (cos x) | NonFin \<Rightarrow> NonFin)"

definition np_arctan :: "fl \<Rightarrow> fl" where
  "np_arctan u = (case u of Fin x \<Rightarrow> Fin (arctan x) | NonFin \<Rightarrow> NonFin)"

definition np_arccos :: "fl \<Rightarrow> fl" where
  "np_arccos u = (case u of Fin x \<Rightarrow> if - 1 \<le> x \<and> x \<le> 1 then Fin (arccos x) else NonFin
                 | NonFin \<Rightarrow> NonFin)"

definition deg2rad :: "real \<Rightarrow> real" where
  "deg2rad x = x * (pi / 180)"

definition rad2deg :: "real \<Rightarrow> real" where
  "rad2deg x = x * (180 / pi)"

definition np_rad2deg :: "fl \<Rightarrow> fl" where
  "np_rad2deg u = (case u of Fin x \<Rightarrow> Fin (rad2deg x) | NonFin \<Rightarrow> NonFin)"

text \<open>\<^verbatim>\<open>x ** 2\<close>.\<close>

definition sq :: "fl \<Rightarrow> fl" where
  "sq u = u * u"

text \<open>\<^verbatim>\<open>base ** e\<close> for a float base and the exponents the script uses (the integer \<open>0\<close> and
  \<open>0.2\<close>): anything to the power \<open>0\<close> is \<open>1\<close>; a negative base to a fractional power is
  \<^verbatim>\<open>nan\<close>.\<close>

definition np_power :: "real \<Rightarrow> real \<Rightarrow> fl" where
  "np_power base e =
     (if e = 0 then Fin 1
      else if 0 < base then Fin (base powr e)
      else if base = 0 \<and> 0 < e then Fin 0
      else NonFin)"

section \<open>Script parameters\<close>

record config =
  use_wind_shear :: bool
  use_pitch :: bool
  use_dwf :: bool
  use_stall :: bool

definition B :: nat where "B = 3"
definition H :: real where "H = 119"
definition L_s :: real where "L_s = 7.1"
definition R :: real where "R = 89.17"
definition theta_cone :: real where "theta_cone = 0"
definition theta_yaw :: real where "theta_yaw = deg2rad 0"
definition theta_tilt :: real where "theta_tilt = 0"
definition rho :: real where "rho = 1.225"
definition omega :: real where "omega = 7.229 * 2 * pi / 60"
definition delta_t :: real where "delta_t = 0.15"
definition timerange :: nat where "timerange = 1200"
definition V_0 :: real where "V_0 = 9"
definition k_dwf :: real where "k_dwf = 0.6"

definition wind_shear :: "config \<Rightarrow> real" where
  "wind_shear cfg = (if use_wind_shear cfg then 0.2 else 0)"

text \<open>The blade table \<^verbatim>\<open>bladedat.txt\<close> is not part of the sources: it is a parameter, a
  list of rows \<open>(r, beta_deg, c, tc)\<close>; \<^verbatim>\<open>r,beta_deg,c,tc = airfoils.T\<close> are its columns.\<close>

type_synonym airfoils = "(real \<times> real \<times> real \<times> real) list"

definition col_r :: "airfoils \<Rightarrow> real list" where
  "col_r af = map (\<lambda>(r, beta_deg, c, tc). r) af"

definition col_beta_deg :: "airfoils \<Rightarrow> real list" where
  "col_beta_deg af = map (\<lambda>(r, beta_deg, c, tc). beta_deg) af"

definition col_c :: "airfoils \<Rightarrow> real list" where
  "col_c af = map (\<lambda>(r, beta_deg, c, tc). c) af"

definition col_tc :: "airfoils \<Rightarrow> real list" where
  "col_tc af = map (\<lambda>(r, beta_deg, c, tc). tc) af"

text \<open>The polar lookup \<^verbatim>\<open>force_coeffs_10MW\<close> (module \<^verbatim>\<open>interpolation\<close>) is not part of the
  sources either: it is a parameter, a function of the angle of attack in degrees and the
  thickness ratio that returns \<open>(cl, cd, cm, f_stat, cl_inv, cl_fs)\<close>. The tables it is
  handed are constant during the run.\<close>

type_synonym polar = "fl \<Rightarrow> real \<Rightarrow> fl \<times> fl \<times> fl \<times> fl \<times> fl \<times> fl"

section \<open>Transformation matrices\<close>

type_synonym 'a vec3 = "'a \<times> 'a \<times> 'a"
type_synonym 'a mat3 = "'a vec3 \<times> 'a vec3 \<times> 'a vec3"

definition dot3 :: "('a::{plus,times}) vec3 \<Rightarrow> 'a vec3 \<Rightarrow> 'a" where
  "dot3 u v = (case u of (u0, u1, u2) \<Rightarrow> case v of (v0, v1, v2) \<Rightarrow> u0 * v0 + u1 * v1 + u2 * v2)"

definition matvec :: "('a::{plus,times}) mat3 \<Rightarrow> 'a vec3 \<Rightarrow> 'a vec3" where
  "matvec m v = (case m of (row0, row1, row2) \<Rightarrow> (dot3 row0 v, dot3 row1 v, dot3 row2 v))"

definition np_transpose :: "'a mat3 \<Rightarrow> 'a mat3" where
  "np_transpose m =
     (case m of ((m00, m01, m02), (m10, m11, m12), (m20, m21, m22)) \<Rightarrow>
        ((m00, m10, m20), (m01, m11, m21), (m02, m12, m22)))"

definition matmul :: "('a::{plus,times}) mat3 \<Rightarrow> 'a mat3 \<Rightarrow> 'a mat3" where
  "matmul m m' =
     (case np_transpose m' of (col0, col1, col2) \<Rightarrow>
        case m of (row0, row1, row2) \<Rightarrow>
          ((dot3 row0 col0, dot3 row0 col1, dot3 row0 col2),
           (dot3 row1 col0, dot3 row1 col1, dot3 row1 col2),
           (dot3 row2 col0, dot3 row2 col1, dot3 row2 col2)))"

definition vadd :: "('a::plus) vec3 \<Rightarrow> 'a vec3 \<Rightarrow> 'a vec3" where
  "vadd u v = (case u of (u0, u1, u2) \<Rightarrow> case v of (v0, v1, v2) \<Rightarrow> (u0 + v0, u1 + v1, u2 + v2))"

definition fin_mat :: "real mat3 \<Rightarrow> fl mat3" where
  "fin_mat m =
     (case m of ((m00, m01, m02), (m10, m11, m12), (m20, m21, m22)) \<Rightarrow>
        ((Fin m00, Fin m01, Fin m02), (Fin m10, Fin m11, Fin m12), (Fin m20, Fin m21, Fin m22)))"

definition a1 :: "real mat3" where
  "a1 = ((1, 0, 0),
         (0, cos theta_yaw, sin theta_yaw),
         (0, - sin theta_yaw, cos theta_yaw))"

definition a2 :: "real mat3" where
  "a2 = ((cos theta_tilt, 0, - sin theta_tilt),
         (0, 1, 0),
         (sin theta_tilt, 0, cos theta_tilt))"

definition a3 :: "real mat3" where
  "a3 = ((1, 0, 0), (0, 1, 0), (0, 0, 1))"

definition a12 :: "real mat3" where
  "a12 = matmul (matmul a3 a2) a1"

definition a21 :: "real mat3" where
  "a21 = np_transpose a12"

definition a34 :: "real mat3" where
  "a34 = ((cos theta_cone, 0, - sin theta_cone),
          (0, 1, 0),
          (sin theta_cone, 0, cos theta_cone))"

definition rt1 :: "real vec3" where
  "rt1 = (H, 0, 0)"

definition rs1 :: "real vec3" where
  "rs1 = matvec a21 (0, 0, - L_s)"

definition a23 :: "real \<Rightarrow> real mat3" where
  "a23 theta = ((cos theta, sin theta, 0),
               (- sin theta, cos theta, 0),
               (0, 0, 1))"

definition a14 :: "real \<Rightarrow> real mat3" where
  "a14 theta = matmul (matmul a34 (a23 theta)) a12"

definition a41 :: "real \<Rightarrow> real mat3" where
  "a41 theta = np_transpose (a14 theta)"

section \<open>Three pieces of the loop body\<close>

text \<open>Line 235: the inflow angle.\<close>

definition inflow_angle :: "fl \<Rightarrow> fl \<Rightarrow> fl" where
  "inflow_angle V_rel_z V_rel_y = np_arctan (V_rel_z / (- V_rel_y))"

text \<open>Lines 260 to 263: the Glauert factor. A comparison cannot be followed on a value
  that is not finite.\<close>

definition glauert :: "fl \<Rightarrow> fl" where
  "glauert a = (case a of
       Fin a' \<Rightarrow> if a' \<le> 0.33 then Fin 1 else Fin 0.25 * (Fin 5 - Fin 3 * a)
     | NonFin \<Rightarrow> NonFin)"

text \<open>Lines 284 to 287: Prandtl's tip loss factor. When \<open>R - r[k] \<le> 0.005\<close> the test
  succeeds whatever its first half says.\<close>

definition prandtl :: "fl \<Rightarrow> real \<Rightarrow> fl" where
  "prandtl phi r_k =
     (let formula = Fin (2 / pi) * np_arccos (np_exp (- Fin (real B / 2) *
                      (Fin (R - r_k) / (Fin r_k * np_sin \<bar>phi\<bar>))))
      in case np_sin \<bar>phi\<bar> of
           Fin s \<Rightarrow> if s \<le> 0.01 \<or> R - r_k \<le> 0.005 then Fin 1 else formula
         | NonFin \<Rightarrow> if R - r_k \<le> 0.005 then Fin 1 else NonFin)"

section \<open>State arrays\<close>

text \<open>
  The script keeps every quantity in a dense array indexed \<open>[k, i, n]\<close> (blade element,
  blade, time step). A \<open>cell\<close> holds the entries \<open>[k, i, n]\<close> of all these arrays for one
  \<open>k\<close>, \<open>i\<close> and \<open>n\<close>.
\<close>

record cell =
  x1_arr :: real
  y1_arr :: real
  z1_arr :: real
  V0x_arr :: fl
  V0y_arr :: fl
  V0z_arr :: fl
  V_rel_y_arr :: fl
  V_rel_z_arr :: fl
  Wy_arr :: fl
  Wz_arr :: fl
  Wy_qs_arr :: fl
  Wz_qs_arr :: fl
  Wy_int_arr :: fl
  Wz_int_arr :: fl
  pt_arr :: fl
  pn_arr :: fl
  fs_arr :: fl
  cl_arr :: fl

text \<open>The local variables of one pass through the innermost loop body, and the cell it
  writes.\<close>

record trace =
  phi :: fl
  aoa_deg :: fl
  cl :: fl
  cd :: fl
  cm :: fl
  f_stat :: fl
  cl_inv :: fl
  cl_fs :: fl
  V_rel_abs :: fl
  a :: fl
  f_g :: fl
  V_f_W :: fl
  l :: fl
  d :: fl
  p_z :: fl
  p_y :: fl
  F :: fl
  out :: cell

text \<open>\<^verbatim>\<open>np.zeros\<close>: the value of every array entry that has not been written.\<close>

definition zero_cell :: cell where
  "zero_cell =
     \<lparr>x1_arr = 0, y1_arr = 0, z1_arr = 0,
      V0x_arr = Fin 0, V0y_arr = Fin 0, V0z_arr = Fin 0,
      V_rel_y_arr = Fin 0, V_rel_z_arr = Fin 0,
      Wy_arr = Fin 0, Wz_arr = Fin 0, Wy_qs_arr = Fin 0, Wz_qs_arr = Fin 0,
      Wy_int_arr = Fin 0, Wz_int_arr = Fin 0,
      pt_arr = Fin 0, pn_arr = Fin 0, fs_arr = Fin 0, cl_arr = Fin 0\<rparr>"

section \<open>The loop body for one blade element\<close>

text \<open>
  Lines 211 to 309, for element \<open>k\<close> of the blade whose azimuth at this step is
  \<open>theta_blade\<close>. \<open>prev\<close> holds the entries \<open>[k, i, n-1]\<close> of the arrays. An array entry
  \<open>[k, i, n]\<close> that a branch does not write keeps the zero of its initialisation.
\<close>

definition element :: "config \<Rightarrow> polar \<Rightarrow> airfoils \<Rightarrow> real \<Rightarrow> real \<Rightarrow> nat \<Rightarrow> cell \<Rightarrow> trace" where
  "element cfg force_coeffs_10MW airfoils theta_blade theta_pitch k prev =
     (let r = col_r airfoils; beta_deg = col_beta_deg airfoils;
          c = col_c airfoils; tc = col_tc airfoils;
          rb1 = matvec (a41 theta_blade) (r ! k, 0, 0);
          r1 = vadd (vadd rt1 rs1) rb1;
          x1 = fst r1; y1 = fst (snd r1); z1 = snd (snd r1);
          V0_array = (Fin 0, Fin 0, Fin V_0 * np_power (x1 / H) (wind_shear cfg));
          V0_4 = matvec (fin_mat (a14 theta_blade)) V0_array;
          V0x = fst V0_4; V0y = fst (snd V0_4); V0z = snd (snd V0_4);
          V_rel_y = V0y + Wy_arr prev - Fin (omega * r ! k * cos theta_cone);
          V_rel_z = V0z + Wz_arr prev;
          phi = inflow_angle V_rel_z V_rel_y;
          aoa_deg = np_rad2deg phi - Fin (beta_deg ! k + rad2deg theta_pitch);
          coeffs = force_coeffs_10MW aoa_deg (tc ! k);
          cl = fst coeffs; cd = fst (snd coeffs); cm = fst (snd (snd coeffs));
          f_stat = fst (snd (snd (snd coeffs)));
          cl_inv = fst (snd (snd (snd (snd coeffs))));
          cl_fs = snd (snd (snd (snd (snd coeffs))));
          V_rel_abs = np_sqrt (sq V_rel_y + sq V_rel_z);
          tau_stall = Fin 4 * Fin (c ! k) / V_rel_abs;
          fs_n = (if use_stall cfg
                  then f_stat + (fs_arr prev - f_stat) * np_exp (- Fin delta_t / tau_stall)
                  else Fin 0);
          cl_n = (if use_stall cfg
                  then f_stat * cl_inv + (Fin 1 - fs_n) * cl_fs
                  else cl);
          a = - Wz_arr prev / Fin V_0;
          f_g = glauert a;
          V_f_W = np_sqrt (sq V0y + sq (V0z + f_g * Wz_arr prev));
          l = Fin 0.5 * Fin rho * sq V_rel_abs * Fin (c ! k) * cl_n;
          d = Fin 0.5 * Fin rho * sq V_rel_abs * Fin (c ! k) * cd;
          p_z = (if k = length airfoils - 1 then Fin 0
                 else l * np_cos phi + d * np_sin phi);
          p_y = (if k = length airfoils - 1 then Fin 0
                 else l * np_sin phi - d * np_cos phi);
          F = prandtl phi (r ! k);
          Wz_qs = (- Fin (real B) * l * np_cos phi) /
                  (Fin 4 * Fin pi * Fin rho * Fin (r ! k) * F * V_f_W);
          Wy_qs = (- Fin (real B) * l * np_sin phi) /
                  (Fin 4 * Fin pi * Fin rho * Fin (r ! k) * F * V_f_W);
          tau_1 = Fin 1.1 / (Fin 1 - Fin 1.3 * a) * Fin R / Fin V_0;
          tau_2 = (Fin 0.39 - Fin 0.26 * sq (Fin (r ! k) / Fin R)) * tau_1;
          Hy_dwf = Wy_qs + Fin k_dwf * tau_1 * (Wy_qs - Wy_qs_arr prev) / Fin delta_t;
          Hz_dwf = Wz_qs + Fin k_dwf * tau_1 * (Wz_qs - Wz_qs_arr prev) / Fin delta_t;
          Wy_int = (if use_dwf cfg
                    then Hy_dwf + (Wy_int_arr prev - Hy_dwf) * np_exp (- Fin delta_t / tau_1)
                    else Fin 0);
          Wz_int = (if use_dwf cfg
                    then Hz_dwf + (Wz_int_arr prev - Hz_dwf) * np_exp (- Fin delta_t / tau_1)
                    else Fin 0);
          Wy = (if use_dwf cfg
                then Wy_int + (Wy_arr prev - Wy_int) * np_exp (- Fin delta_t / tau_2)
                else Wy_qs);
          Wz = (if use_dwf cfg
                then Wz_int + (Wz_arr prev - Wz_int) * np_exp (- Fin delta_t / tau_2)
                else Wz_qs)
      in \<lparr>phi = phi, aoa_deg = aoa_deg, cl = cl, cd = cd, cm = cm, f_stat = f_stat,
          cl_inv = cl_inv, cl_fs = cl_fs, V_rel_abs = V_rel_abs, a = a, f_g = f_g,
          V_f_W = V_f_W, l = l, d = d, p_z = p_z, p_y = p_y, F = F,
          out = \<lparr>x1_arr = x1, y1_arr = y1, z1_arr = z1,
                  V0x_arr = V0x, V0y_arr = V0y, V0z_arr = V0z,
                  V_rel_y_arr = V_rel_y, V_rel_z_arr = V_rel_z,
                  Wy_arr = Wy, Wz_arr = Wz, Wy_qs_arr = Wy_qs, Wz_qs_arr = Wz_qs,
                  Wy_int_arr = Wy_int, Wz_int_arr = Wz_int,
                  pt_arr = p_y, pn_arr = p_z, fs_arr = fs_n, cl_arr = cl_n\<rparr>\<rparr>)"

section \<open>The time loop\<close>

text \<open>A \<open>slice\<close> holds everything stored at index \<open>n\<close> of the arrays, \<open>cells ! k ! i\<close>
  being the entries \<open>[k, i, n]\<close>, together with the variable \<^verbatim>\<open>theta_pitch\<close>, which the
  loop carries from one step to the next.\<close>

record slice =
  time_arr :: real
  theta_pitch :: real
  theta_blade_arr :: "real list"
  cells :: "cell list list"
  P_arr :: fl
  T_all_arr :: "fl list"
  T_arr :: fl

text \<open>Lines 127 to 168: the arrays at index \<open>0\<close>, and \<^verbatim>\<open>theta_pitch = 0\<close> (line 75).\<close>

definition init :: "airfoils \<Rightarrow> slice" where
  "init airfoils =
     \<lparr>time_arr = 0,
      theta_pitch = 0,
      theta_blade_arr = (replicate B 0)[1 := 2 * pi / 3, 2 := 4 * pi / 3],
      cells = replicate (length airfoils) (replicate B zero_cell),
      P_arr = Fin 0,
      T_all_arr = replicate B (Fin 0),
      T_arr = Fin 0\<rparr>"

text \<open>Lines 180 to 184: the pitch at time \<open>t\<close>, from the value the variable had.\<close>

definition pitch_update :: "config \<Rightarrow> real \<Rightarrow> real \<Rightarrow> real" where
  "pitch_update cfg t pitch =
     (if use_pitch cfg
      then (if 100 \<le> t \<and> t \<le> 150 then deg2rad 2
            else if 150 < t then 0
            else pitch)
      else pitch)"

text \<open>Lines 192 to 197, for blade \<open>i\<close>: \<open>before\<close> is the column \<open>n-1\<close> of
  \<^verbatim>\<open>theta_blade_arr\<close> and \<open>tb\<close> its column \<open>n\<close>, which blade \<open>0\<close> has written when
  blades \<open>1\<close> and \<open>2\<close> read it.\<close>

definition azimuth :: "real list \<Rightarrow> real list \<Rightarrow> nat \<Rightarrow> real list" where
  "azimuth before tb i =
     (if i = 0 then tb[i := before ! 0 + omega * delta_t]
      else if i = 1 then tb[i := tb ! 0 + omega * delta_t + 0.666 * pi]
      else if i = 2 then tb[i := tb ! 0 + omega * delta_t + 1.333 * pi]
      else tb)"

text \<open>\<^verbatim>\<open>np.sum\<close> along an axis, and \<^verbatim>\<open>np.trapz(y, x)\<close>:
  the sum of \<open>(x[j+1] - x[j]) * (y[j+1] + y[j]) / 2\<close>.\<close>

definition np_sum :: "fl list \<Rightarrow> fl" where
  "np_sum ys = foldl (+) (Fin 0) ys"

fun np_trapz :: "fl list \<Rightarrow> real list \<Rightarrow> fl" where
  "np_trapz (y0 # y1 # ys) (x0 # x1 # xs) =
     Fin (x1 - x0) * (y1 + y0) / Fin 2 + np_trapz (y1 # ys) (x1 # xs)"
| "np_trapz ys xs = Fin 0"

text \<open>
  Lines 177 to 323: one pass through the body of the time loop, for step \<open>n\<close>. The loop
  over the blades writes the azimuth of blade \<open>i\<close> and then the cells of its elements; the
  cell \<open>[k, i, n]\<close> is computed from the cell \<open>[k, i, n-1]\<close>, the azimuth of blade \<open>i\<close> and
  the pitch only, so the model computes the azimuths first and then each cell.
\<close>

definition step :: "config \<Rightarrow> polar \<Rightarrow> airfoils \<Rightarrow> nat \<Rightarrow> slice \<Rightarrow> slice" where
  "step cfg force_coeffs_10MW airfoils n prev =
     (let r = col_r airfoils;
          t = real n * delta_t;
          pitch = pitch_update cfg t (theta_pitch prev);
          tb = foldl (azimuth (theta_blade_arr prev)) (replicate B 0) [0..<B];
          cs = map (\<lambda>k. map (\<lambda>i. out (element cfg force_coeffs_10MW airfoils (tb ! i) pitch k
                                          (cells prev ! k ! i))) [0..<B])
                   [0..<length r];
          M_r = np_trapz (map2 (\<lambda>p x. p * Fin x) (map (\<lambda>row. np_sum (map pt_arr row)) cs) r) r;
          T = np_trapz (map (\<lambda>row. np_sum (map pn_arr row)) cs) r
      in \<lparr>time_arr = t,
          theta_pitch = pitch,
          theta_blade_arr = tb,
          cells = cs,
          P_arr = Fin omega * M_r,
          T_all_arr = (replicate B (Fin 0))
                        [0 := np_trapz (map (\<lambda>row. pn_arr (row ! 0)) cs) r,
                         1 := np_trapz (map (\<lambda>row. pn_arr (row ! 1)) cs) r,
                         2 := np_trapz (map (\<lambda>row. pn_arr (row ! 2)) cs) r],
          T_arr = T\<rparr>)"

text \<open>The state after the steps \<open>1, \<dots>, n\<close> of \<^verbatim>\<open>for n in range(1,timerange)\<close>.\<close>

fun sim :: "config \<Rightarrow> polar \<Rightarrow> airfoils \<Rightarrow> nat \<Rightarrow> slice" where
  "sim cfg force_coeffs_10MW airfoils 0 = init airfoils"
| "sim cfg force_coeffs_10MW airfoils (Suc n) =
     step cfg force_coeffs_10MW airfoils (Suc n) (sim cfg force_coeffs_10MW airfoils n)"

text \<open>The whole run: the time history of the arrays.\<close>

definition simulate :: "config \<Rightarrow> polar \<Rightarrow> airfoils \<Rightarrow> slice list" where
  "simulate cfg force_coeffs_10MW airfoils = map (sim cfg force_coeffs_10MW airfoils) [0..<timerange]"

text \<open>The local variables of the loop body at step \<open>Suc n\<close>, blade \<open>i\<close>, element \<open>k\<close>.\<close>

definition body :: "config \<Rightarrow> polar \<Rightarrow> airfoils \<Rightarrow> nat \<Rightarrow> nat \<Rightarrow> nat \<Rightarrow> trace" where
  "body cfg force_coeffs_10MW airfoils n k i =
     element cfg force_coeffs_10MW airfoils
       (theta_blade_arr (sim cfg force_coeffs_10MW airfoils (Suc n)) ! i)
       (theta_pitch (sim cfg force_coeffs_10MW airfoils (Suc n))) k
       (cells (sim cfg force_coeffs_10MW airfoils n) ! k ! i)"

section \<open>The two-argument arctangent\<close>

text \<open>The specification describes the inflow angle as an \<^verbatim>\<open>atan2\<close>. This is the function
  of that name (C, Python, numpy) on the reals, the angle of the point \<open>(x, y)\<close> in
  \<open>(-\<pi>, \<pi>]\<close>; the script does not call it.\<close>

definition atan2 :: "real \<Rightarrow> real \<Rightarrow> real" where
  "atan2 y x =
     (if 0 < x then arctan (y / x)
      else if x < 0 \<and> 0 \<le> y then arctan (y / x) + pi
      else if x < 0 \<and> y < 0 then arctan (y / x) - pi
      else if 0 < y then pi / 2
      else if y < 0 then - pi / 2
      else 0)"

section \<open>A small run\<close>

text \<open>Inputs on which the model is evaluated: a blade table of two stations, the second
  one at the tip, a polar lookup that returns the same coefficients everywhere, and the
  switches of the script with wind shear, dynamic wake and dynamic stall turned off.\<close>

definition example_cfg :: config where
  "example_cfg = \<lparr>use_wind_shear = False, use_pitch = True, use_dwf = False, use_stall = False\<rparr>"

definition example_polar :: polar where
  "example_polar aoa thickness = (Fin 1, Fin 0.01, Fin 0, Fin 1, Fin 1, Fin 0.5)"

definition example_blade :: airfoils where
  "example_blade = [(50, 5, 4, 24.1), (89.17, - 3, 1, 24.1)]"

section \<open>Arithmetic of the float values\<close>

lemma fl_arith [simp]:
  "Fin x + Fin y = Fin (x + y)"
  "Fin x - Fin y = Fin (x - y)"
  "Fin x * Fin y = Fin (x * y)"
  "- Fin x = Fin (- x)"
  "\<bar>Fin x\<bar> = Fin \<bar>x\<bar>"
  "Fin x / Fin y = (if y = 0 then NonFin else Fin (x / y))"
  by (simp_all add: plus_fl_def minus_fl_def times_fl_def uminus_fl_def abs_fl_def divide_fl_def)

lemma fl_absorb [simp]:
  "NonFin + u = NonFin" "u + NonFin = NonFin"
  "NonFin - u = NonFin" "u - NonFin = NonFin"
  "NonFin * u = NonFin" "u * NonFin = NonFin"
  "NonFin / u = NonFin" "u / NonFin = NonFin"
  "- NonFin = NonFin" "\<bar>NonFin\<bar> = NonFin"
  by (simp_all add: plus_fl_def minus_fl_def times_fl_def uminus_fl_def abs_fl_def divide_fl_def
      split: fl.splits)

lemma np_fun [simp]:
  "np_sqrt (Fin x) = (if 0 \<le> x then Fin (sqrt x) else NonFin)"
  "np_exp (Fin x) = Fin (exp x)"
  "np_sin (Fin x) = Fin (sin x)"
  "np_cos (Fin x) = Fin (cos x)"
  "np_arctan (Fin x) = Fin (arctan x)"
  "np_arccos (Fin x) = (if - 1 \<le> x \<and> x \<le> 1 then Fin (arccos x) else NonFin)"
  "np_rad2deg (Fin x) = Fin (rad2deg x)"
  "np_sqrt NonFin = NonFin" "np_exp NonFin = NonFin" "np_sin NonFin = NonFin"
  "np_cos NonFin = NonFin" "np_arctan NonFin = NonFin" "np_arccos NonFin = NonFin"
  "np_rad2deg NonFin = NonFin"
  by (simp_all add: np_sqrt_def np_exp_def np_sin_def np_cos_def np_arctan_def np_arccos_def
      np_rad2deg_def)

section \<open>The loop structure\<close>

lemma B_pos [simp]: "0 < B" "1 < B" "2 < B"
  by (simp_all add: B_def)

lemma length_cols [simp]:
  "length (col_r af) = length af" "length (col_beta_deg af) = length af"
  "length (col_c af) = length af" "length (col_tc af) = length af"
  by (simp_all add: col_r_def col_beta_deg_def col_c_def col_tc_def)

lemma theta_blade_step:
  "theta_blade_arr (step cfg pol af n prev) =
     [theta_blade_arr prev ! 0 + omega * delta_t,
      theta_blade_arr prev ! 0 + omega * delta_t + omega * delta_t + 0.666 * pi,
      theta_blade_arr prev ! 0 + omega * delta_t + omega * delta_t + 1.333 * pi]"
proof -
  have "[0..<B] = [0, 1, 2]"
    by (simp add: B_def upt_rec)
  moreover have "replicate B (0::real) = [0, 0, 0]"
    by (simp add: B_def numeral_3_eq_3)
  ultimately show ?thesis
    by (simp add: step_def Let_def azimuth_def)
qed

lemma length_cells_sim [simp]:
  "length (cells (sim cfg pol af n)) = length af"
  by (cases n) (simp_all add: init_def step_def Let_def)

lemma cells_sim_Suc:
  assumes "k < length af" and "i < B"
  shows "cells (sim cfg pol af (Suc n)) ! k ! i = out (body cfg pol af n k i)"
  using assms by (simp add: body_def step_def Let_def)

section \<open>The loop body, field by field\<close>

lemma element_position:
  "(x1_arr (out (element cfg pol af th p k prev)), y1_arr (out (element cfg pol af th p k prev)),
    z1_arr (out (element cfg pol af th p k prev)))
   = vadd (vadd rt1 rs1) (matvec (a41 th) (col_r af ! k, 0, 0))"
  unfolding element_def Let_def by (simp only: trace.select_convs cell.select_convs prod.collapse)

lemma element_V0:
  "(V0x_arr (out (element cfg pol af th p k prev)), V0y_arr (out (element cfg pol af th p k prev)),
    V0z_arr (out (element cfg pol af th p k prev)))
   = matvec (fin_mat (a14 th))
       (Fin 0, Fin 0, Fin V_0 * np_power (x1_arr (out (element cfg pol af th p k prev)) / H) (wind_shear cfg))"
  unfolding element_def Let_def by (simp only: trace.select_convs cell.select_convs prod.collapse)

lemma element_V_rel:
  "V_rel_y_arr (out (element cfg pol af th p k prev)) =
     V0y_arr (out (element cfg pol af th p k prev)) + Wy_arr prev - Fin (omega * col_r af ! k * cos theta_cone)"
  "V_rel_z_arr (out (element cfg pol af th p k prev)) =
     V0z_arr (out (element cfg pol af th p k prev)) + Wz_arr prev"
  unfolding element_def Let_def by (simp_all only: trace.select_convs cell.select_convs)

lemma element_phi:
  "phi (element cfg pol af th p k prev) =
     inflow_angle (V_rel_z_arr (out (element cfg pol af th p k prev)))
                  (V_rel_y_arr (out (element cfg pol af th p k prev)))"
  "aoa_deg (element cfg pol af th p k prev) =
     np_rad2deg (phi (element cfg pol af th p k prev)) - Fin (col_beta_deg af ! k + rad2deg p)"
  unfolding element_def Let_def by (simp_all only: trace.select_convs cell.select_convs)

lemma element_coeffs:
  "(cl (element cfg pol af th p k prev), cd (element cfg pol af th p k prev),
    cm (element cfg pol af th p k prev), f_stat (element cfg pol af th p k prev),
    cl_inv (element cfg pol af th p k prev), cl_fs (element cfg pol af th p k prev))
   = pol (aoa_deg (element cfg pol af th p k prev)) (col_tc af ! k)"
  unfolding element_def Let_def by (simp only: trace.select_convs cell.select_convs prod.collapse)

lemma element_V_rel_abs:
  "V_rel_abs (element cfg pol af th p k prev) =
     np_sqrt (sq (V_rel_y_arr (out (element cfg pol af th p k prev)))
            + sq (V_rel_z_arr (out (element cfg pol af th p k prev))))"
  unfolding element_def Let_def by (simp only: trace.select_convs cell.select_convs)

lemma element_stall:
  "fs_arr (out (element cfg pol af th p k prev)) =
     (if use_stall cfg
      then f_stat (element cfg pol af th p k prev)
           + (fs_arr prev - f_stat (element cfg pol af th p k prev))
             * np_exp (- Fin delta_t / (Fin 4 * Fin (col_c af ! k) / V_rel_abs (element cfg pol af th p k prev)))
      else Fin 0)"
  "cl_arr (out (element cfg pol af th p k prev)) =
     (if use_stall cfg
      then f_stat (element cfg pol af th p k prev) * cl_inv (element cfg pol af th p k prev)
           + (Fin 1 - fs_arr (out (element cfg pol af th p k prev))) * cl_fs (element cfg pol af th p k prev)
      else cl (element cfg pol af th p k prev))"
  unfolding element_def Let_def by (simp_all only: trace.select_convs cell.select_convs)

lemma element_wake:
  "a (element cfg pol af th p k prev) = - Wz_arr prev / Fin V_0"
  "f_g (element cfg pol af th p k prev) = glauert (a (element cfg pol af th p k prev))"
  "V_f_W (element cfg pol af th p k prev) =
     np_sqrt (sq (V0y_arr (out (element cfg pol af th p k prev)))
            + sq (V0z_arr (out (element cfg pol af th p k prev))
                  + f_g (element cfg pol af th p k prev) * Wz_arr prev))"
  unfolding element_def Let_def by (simp_all only: trace.select_convs cell.select_convs)

lemma element_lift:
  "l (element cfg pol af th p k prev) =
     Fin 0.5 * Fin rho * sq (V_rel_abs (element cfg pol af th p k prev)) * Fin (col_c af ! k)
       * cl_arr (out (element cfg pol af th p k prev))"
  "d (element cfg pol af th p k prev) =
     Fin 0.5 * Fin rho * sq (V_rel_abs (element cfg pol af th p k prev)) * Fin (col_c af ! k)
       * cd (element cfg pol af th p k prev)"
  unfolding element_def Let_def by (simp_all only: trace.select_convs cell.select_convs)

lemma element_loads:
  "pn_arr (out (element cfg pol af th p k prev)) =
     (if k = length af - 1 then Fin 0
      else l (element cfg pol af th p k prev) * np_cos (phi (element cfg pol af th p k prev))
         + d (element cfg pol af th p k prev) * np_sin (phi (element cfg pol af th p k prev)))"
  "pt_arr (out (element cfg pol af th p k prev)) =
     (if k = length af - 1 then Fin 0
      else l (element cfg pol af th p k prev) * np_sin (phi (element cfg pol af th p k prev))
         - d (element cfg pol af th p k prev) * np_cos (phi (element cfg pol af th p k prev)))"
  unfolding element_def Let_def by (simp_all only: trace.select_convs cell.select_convs)

lemma element_F:
  "F (element cfg pol af th p k prev) = prandtl (phi (element cfg pol af th p k prev)) (col_r af ! k)"
  unfolding element_def Let_def by (simp only: trace.select_convs cell.select_convs)

lemma element_qs:
  "Wz_qs_arr (out (element cfg pol af th p k prev)) =
     (- Fin (real B) * l (element cfg pol af th p k prev) * np_cos (phi (element cfg pol af th p k prev)))
     / (Fin 4 * Fin pi * Fin rho * Fin (col_r af ! k) * F (element cfg pol af th p k prev)
        * V_f_W (element cfg pol af th p k prev))"
  "Wy_qs_arr (out (element cfg pol af th p k prev)) =
     (- Fin (real B) * l (element cfg pol af th p k prev) * np_sin (phi (element cfg pol af th p k prev)))
     / (Fin 4 * Fin pi * Fin rho * Fin (col_r af ! k) * F (element cfg pol af th p k prev)
        * V_f_W (element cfg pol af th p k prev))"
  unfolding element_def Let_def by (simp_all only: trace.select_convs cell.select_convs)

lemma element_no_dwf:
  assumes "\<not> use_dwf cfg"
  shows "Wy_arr (out (element cfg pol af th p k prev)) = Wy_qs_arr (out (element cfg pol af th p k prev))"
    and "Wz_arr (out (element cfg pol af th p k prev)) = Wz_qs_arr (out (element cfg pol af th p k prev))"
  using assms unfolding element_def Let_def
  by (simp_all only: trace.select_convs cell.select_convs if_False)

lemma element_no_dwf_state:
  assumes "\<not> use_dwf cfg"
  shows "Wy_arr (out (element cfg pol af th p k
                     (prev\<lparr>Wy_qs_arr := u1, Wz_qs_arr := u2, Wy_int_arr := u3, Wz_int_arr := u4\<rparr>)))
         = Wy_arr (out (element cfg pol af th p k prev))"
    and "Wz_arr (out (element cfg pol af th p k
                     (prev\<lparr>Wy_qs_arr := u1, Wz_qs_arr := u2, Wy_int_arr := u3, Wz_int_arr := u4\<rparr>)))
         = Wz_arr (out (element cfg pol af th p k prev))"
  using assms
  by (cases prev, simp only: element_def Let_def trace.select_convs cell.select_convs
      cell.update_convs if_False)+

section \<open>The first step of a run without wind shear\<close>

lemma a14_a23: "a14 th = a23 th"
  by (simp add: a14_def a34_def a12_def a1_def a2_def a3_def a23_def matmul_def dot3_def
      np_transpose_def theta_cone_def theta_yaw_def theta_tilt_def deg2rad_def)

lemma V0_no_shear:
  assumes "\<not> use_wind_shear cfg"
  shows "V0y_arr (out (element cfg pol af th p k prev)) = Fin 0"
    and "V0z_arr (out (element cfg pol af th p k prev)) = Fin V_0"
proof -
  have "(V0x_arr (out (element cfg pol af th p k prev)), V0y_arr (out (element cfg pol af th p k prev)),
         V0z_arr (out (element cfg pol af th p k prev))) = (Fin 0, Fin 0, Fin V_0)"
    unfolding element_V0 using assms
    by (simp add: wind_shear_def np_power_def a14_a23 a23_def fin_mat_def matvec_def dot3_def)
  then show "V0y_arr (out (element cfg pol af th p k prev)) = Fin 0"
    and "V0z_arr (out (element cfg pol af th p k prev)) = Fin V_0"
    by simp_all
qed

lemma omega_pos: "0 < omega"
  by (simp add: omega_def)

lemma first_step_V_rel:
  assumes "\<not> use_wind_shear cfg" and "Wy_arr prev = Fin 0" and "Wz_arr prev = Fin 0"
  shows "V_rel_y_arr (out (element cfg pol af th p k prev)) = Fin (- (omega * col_r af ! k))"
    and "V_rel_z_arr (out (element cfg pol af th p k prev)) = Fin V_0"
  using assms by (simp_all add: element_V_rel V0_no_shear theta_cone_def)

lemma first_step_phi:
  assumes "\<not> use_wind_shear cfg" and "Wy_arr prev = Fin 0" and "Wz_arr prev = Fin 0"
    and "0 < col_r af ! k"
  shows "phi (element cfg pol af th p k prev) = Fin (arctan (V_0 / (omega * col_r af ! k)))"
  using assms omega_pos
  by (simp add: element_phi first_step_V_rel inflow_angle_def)

lemma first_step_V_rel_abs:
  assumes "\<not> use_wind_shear cfg" and "Wy_arr prev = Fin 0" and "Wz_arr prev = Fin 0"
  shows "sq (V_rel_abs (element cfg pol af th p k prev)) = Fin ((omega * col_r af ! k)\<^sup>2 + V_0\<^sup>2)"
  using assms
  by (simp add: element_V_rel_abs first_step_V_rel sq_def power2_eq_square)

lemma first_step_V_f_W:
  assumes "\<not> use_wind_shear cfg" and "Wz_arr prev = Fin 0"
  shows "V_f_W (element cfg pol af th p k prev) = Fin V_0"
  using assms
  by (simp add: element_wake V0_no_shear glauert_def sq_def V_0_def real_sqrt_mult_self)

lemma first_step_tip_qs:
  assumes "\<not> use_wind_shear cfg" and "\<not> use_stall cfg"
    and "Wy_arr prev = Fin 0" and "Wz_arr prev = Fin 0"
    and "0 < col_r af ! k" and "R - col_r af ! k \<le> 0.005" and "0 < col_c af ! k"
    and "fst (pol (aoa_deg (element cfg pol af th p k prev)) (col_tc af ! k)) = Fin 1"
  shows "\<exists>w. Wz_qs_arr (out (element cfg pol af th p k prev)) = Fin w \<and> w < 0"
proof -
  define rk where "rk = col_r af ! k"
  define ph where "ph = arctan (V_0 / (omega * rk))"
  define lift where "lift = 0.5 * rho * ((omega * rk)\<^sup>2 + V_0\<^sup>2) * col_c af ! k"
  have "(omega * rk)\<^sup>2 + V_0\<^sup>2 > 0"
    by (simp add: V_0_def add_nonneg_pos)
  with assms(7) have lift: "0 < lift"
    by (simp add: lift_def rho_def)
  have cl: "cl_arr (out (element cfg pol af th p k prev)) = Fin 1"
    using assms(2,8) element_coeffs [of cfg pol af th p k prev, symmetric]
    by (simp add: element_stall)
  have l: "l (element cfg pol af th p k prev) = Fin lift"
    using assms(1,3,4) by (simp add: element_lift first_step_V_rel_abs cl lift_def rk_def)
  have ph: "phi (element cfg pol af th p k prev) = Fin ph"
    using assms(1,3,4,5) by (simp add: first_step_phi ph_def rk_def)
  have F: "F (element cfg pol af th p k prev) = Fin 1"
    using assms(6) by (simp add: element_F ph prandtl_def Let_def)
  have V: "V_f_W (element cfg pol af th p k prev) = Fin V_0"
    using assms(1,4) by (rule first_step_V_f_W)
  have den: "0 < 4 * pi * rho * rk * V_0"
    using assms(5) by (simp add: rho_def V_0_def rk_def)
  have "0 < cos ph"
    unfolding ph_def by (rule cos_gt_zero_pi) (rule arctan_lbound, rule arctan_ubound)
  with lift den have neg: "- real B * lift * cos ph / (4 * pi * rho * rk * V_0) < 0"
    by (simp add: B_def divide_neg_pos)
  have "Wz_qs_arr (out (element cfg pol af th p k prev))
        = Fin (- real B * lift * cos ph / (4 * pi * rho * rk * V_0))"
    using den by (auto simp: element_qs l ph F V rk_def)
  with neg show ?thesis
    by blast
qed

lemma prandtl_Fin:
  "prandtl (Fin p) rk =
     (if sin \<bar>p\<bar> \<le> 0.01 \<or> R - rk \<le> 0.005 then Fin 1
      else Fin (2 / pi) * np_arccos (np_exp (- Fin (real B / 2) * (Fin (R - rk) / (Fin rk * Fin (sin \<bar>p\<bar>))))))"
  by (simp add: prandtl_def Let_def)

lemma prandtl_formula:
  assumes "0 < rk" and "\<not> sin \<bar>p\<bar> \<le> 0.01" and "\<not> R - rk \<le> 0.005"
  shows "prandtl (Fin p) rk = Fin (2 / pi * arccos (exp (- (real B / 2) * ((R - rk) / (rk * sin \<bar>p\<bar>)))))"
    and "0 < 2 / pi * arccos (exp (- (real B / 2) * ((R - rk) / (rk * sin \<bar>p\<bar>))))"
    and "2 / pi * arccos (exp (- (real B / 2) * ((R - rk) / (rk * sin \<bar>p\<bar>)))) \<le> 1"
proof -
  define x where "x = (R - rk) / (rk * sin \<bar>p\<bar>)"
  define e where "e = exp (- (real B / 2) * x)"
  from assms have pos: "0 < rk * sin \<bar>p\<bar>" and num: "0 < R - rk"
    by simp_all
  then have "0 < x"
    by (simp add: x_def)
  then have "- (real B / 2) * x < 0"
    by (simp add: B_def)
  then have e: "0 < e" "e < 1"
    by (simp_all add: e_def)
  have "Fin (R - rk) / (Fin rk * Fin (sin \<bar>p\<bar>)) = Fin x"
    using pos by (auto simp: x_def)
  moreover have "np_exp (- Fin (real B / 2) * Fin x) = Fin e"
    by (simp add: e_def)
  moreover have "np_arccos (Fin e) = Fin (arccos e)"
    using e by simp
  ultimately have "prandtl (Fin p) rk = Fin (2 / pi * arccos e)"
    using assms(2,3) by (simp add: prandtl_Fin)
  then show "prandtl (Fin p) rk = Fin (2 / pi * arccos (exp (- (real B / 2) * ((R - rk) / (rk * sin \<bar>p\<bar>)))))"
    by (simp add: x_def e_def)
  from e have "0 < arccos e"
    using arccos_lt_bounded [of e] by simp
  then show "0 < 2 / pi * arccos (exp (- (real B / 2) * ((R - rk) / (rk * sin \<bar>p\<bar>))))"
    by (simp add: x_def e_def)
  have "arccos e \<le> pi / 2"
    by (rule arccos_le_pi2) (use e in simp_all)
  then show "2 / pi * arccos (exp (- (real B / 2) * ((R - rk) / (rk * sin \<bar>p\<bar>)))) \<le> 1"
    by (simp add: x_def e_def field_simps)
qed

lemma prandtl_range:
  assumes "0 < rk" and "rk \<le> R"
  shows "\<exists>f. prandtl (Fin p) rk = Fin f \<and> 0 < f \<and> f \<le> 1
           \<and> (if sin \<bar>p\<bar> \<le> 0.01 \<or> \<bar>R - rk\<bar> \<le> 0.005 then f = 1
               else f = 2 / pi * arccos (exp (- (real B / 2) * ((R - rk) / (rk * sin \<bar>p\<bar>)))))"
proof (cases "sin \<bar>p\<bar> \<le> 0.01 \<or> R - rk \<le> 0.005")
  case True
  with assms(2) show ?thesis
    by (auto simp: prandtl_Fin)
next
  case False
  with assms(2) have nb: "\<not> (sin \<bar>p\<bar> \<le> 0.01 \<or> \<bar>R - rk\<bar> \<le> 0.005)"
    by auto
  from False prandtl_formula [of rk p] assms(1) nb show ?thesis
    by auto
qed

lemma first_step_qs_neg:
  assumes "\<not> use_wind_shear cfg" and "\<not> use_stall cfg"
    and "Wy_arr prev = Fin 0" and "Wz_arr prev = Fin 0"
    and "0 < col_r af ! k" and "col_r af ! k \<le> R" and "0 < col_c af ! k"
    and "fst (pol (aoa_deg (element cfg pol af th p k prev)) (col_tc af ! k)) = Fin 1"
  shows "\<exists>wy wz. Wy_qs_arr (out (element cfg pol af th p k prev)) = Fin wy \<and> wy < 0
               \<and> Wz_qs_arr (out (element cfg pol af th p k prev)) = Fin wz \<and> wz < 0"
proof -
  define rk where "rk = col_r af ! k"
  define ph where "ph = arctan (V_0 / (omega * rk))"
  define lift where "lift = 0.5 * rho * ((omega * rk)\<^sup>2 + V_0\<^sup>2) * col_c af ! k"
  have "(omega * rk)\<^sup>2 + V_0\<^sup>2 > 0"
    by (simp add: V_0_def add_nonneg_pos)
  with assms(7) have lift: "0 < lift"
    by (simp add: lift_def rho_def)
  have cl: "cl_arr (out (element cfg pol af th p k prev)) = Fin 1"
    using assms(2,8) element_coeffs [of cfg pol af th p k prev, symmetric]
    by (simp add: element_stall)
  have l: "l (element cfg pol af th p k prev) = Fin lift"
    using assms(1,3,4) by (simp add: element_lift first_step_V_rel_abs cl lift_def rk_def)
  have ph: "phi (element cfg pol af th p k prev) = Fin ph"
    using assms(1,3,4,5) by (simp add: first_step_phi ph_def rk_def)
  from prandtl_range [OF assms(5,6), of ph]
  obtain f where f: "prandtl (Fin ph) rk = Fin f" "0 < f"
    unfolding rk_def by blast
  have F: "F (element cfg pol af th p k prev) = Fin f"
    by (simp add: element_F ph f rk_def [symmetric])
  have V: "V_f_W (element cfg pol af th p k prev) = Fin V_0"
    using assms(1,4) by (rule first_step_V_f_W)
  have den: "0 < 4 * pi * rho * rk * f * V_0"
    using assms(5) f(2) by (simp add: rho_def V_0_def rk_def)
  have "0 < V_0 / (omega * rk)"
    using assms(5) omega_pos by (simp add: V_0_def rk_def)
  then have "0 < ph"
    by (simp add: ph_def)
  moreover have "ph < pi / 2" "- (pi / 2) < ph"
    unfolding ph_def by (rule arctan_ubound, rule arctan_lbound)
  ultimately have trig: "0 < sin ph" "0 < cos ph"
    using pi_gt_zero by (auto intro!: sin_gt_zero cos_gt_zero_pi)
  with lift den have neg: "- real B * lift * sin ph / (4 * pi * rho * rk * f * V_0) < 0"
    "- real B * lift * cos ph / (4 * pi * rho * rk * f * V_0) < 0"
    by (simp_all add: B_def divide_neg_pos)
  have "Wy_qs_arr (out (element cfg pol af th p k prev))
        = Fin (- real B * lift * sin ph / (4 * pi * rho * rk * f * V_0))"
    "Wz_qs_arr (out (element cfg pol af th p k prev))
        = Fin (- real B * lift * cos ph / (4 * pi * rho * rk * f * V_0))"
    using den by (auto simp: element_qs l ph F V rk_def)
  with neg show ?thesis
    by blast
qed

lemma full_induction_Wy_qs:
  assumes "\<not> use_wind_shear cfg" and "\<not> use_stall cfg"
    and "Wy_arr prev = Fin 0" and "Wz_arr prev = Fin (- V_0)"
    and "0 < col_r af ! k"
    and "fst (pol (aoa_deg (element cfg pol af th p k prev)) (col_tc af ! k)) = Fin 1"
  shows "Wy_qs_arr (out (element cfg pol af th p k prev)) = Fin 0"
proof -
  define rk where "rk = col_r af ! k"
  have rk: "omega * rk \<noteq> 0"
    using assms(5) omega_pos by (simp add: rk_def)
  have Vy: "V_rel_y_arr (out (element cfg pol af th p k prev)) = Fin (- (omega * rk))"
    using assms(1,3) by (simp add: element_V_rel V0_no_shear theta_cone_def rk_def)
  have Vz: "V_rel_z_arr (out (element cfg pol af th p k prev)) = Fin 0"
    using assms(1,4) by (simp add: element_V_rel V0_no_shear)
  have ph: "phi (element cfg pol af th p k prev) = Fin 0"
    using rk by (simp add: element_phi Vy Vz inflow_angle_def)
  have cl: "cl_arr (out (element cfg pol af th p k prev)) = Fin 1"
    using assms(2,6) element_coeffs [of cfg pol af th p k prev, symmetric]
    by (simp add: element_stall)
  define lv where "lv = 0.5 * rho * (omega * rk * (omega * rk)) * col_c af ! k"
  have l: "l (element cfg pol af th p k prev) = Fin lv"
    by (simp add: element_lift element_V_rel_abs Vy Vz cl sq_def lv_def)
  have F: "F (element cfg pol af th p k prev) = Fin 1"
    by (simp add: element_F ph prandtl_def Let_def)
  have "V_f_W (element cfg pol af th p k prev) = Fin (sqrt (81 / 4))"
    using assms(1,4)
    by (simp add: element_wake V0_no_shear glauert_def sq_def V_0_def)
  moreover have "0 < sqrt (81 / 4 :: real)"
    by simp
  ultimately obtain v where V: "V_f_W (element cfg pol af th p k prev) = Fin v" and v: "0 < v"
    by blast
  have den: "4 * pi * rho * rk * v \<noteq> 0"
    using assms(5) v by (simp add: rho_def rk_def)
  then show ?thesis
    by (auto simp: element_qs l ph F V rk_def)
qed

lemma cells_init:
  assumes "k < length af" and "i < B"
  shows "cells (sim cfg pol af 0) ! k ! i = zero_cell"
  using assms by (simp add: init_def)

lemma body_first_step:
  assumes "k < length af" and "i < B"
  shows "body cfg pol af 0 k i =
           element cfg pol af (theta_blade_arr (sim cfg pol af (Suc 0)) ! i)
             (theta_pitch (sim cfg pol af (Suc 0))) k zero_cell"
  using assms unfolding body_def by (simp only: cells_init)

lemma zero_cell_W [simp]: "Wy_arr zero_cell = Fin 0" "Wz_arr zero_cell = Fin 0" "fs_arr zero_cell = Fin 0"
  by (simp_all add: zero_cell_def)

lemma example_simps [simp]:
  "length example_blade = 2"
  "col_r example_blade = [50, 89.17]"
  "col_c example_blade = [4, 1]"
  "\<not> use_wind_shear example_cfg" "use_pitch example_cfg"
  "\<not> use_dwf example_cfg" "\<not> use_stall example_cfg"
  "fst (example_polar u v) = Fin 1"
  by (simp_all add: example_blade_def example_cfg_def example_polar_def col_r_def col_c_def)

lemma example_tip_qs:
  "\<exists>w. Wz_qs_arr (cells (sim example_cfg example_polar example_blade (Suc 0)) ! 1 ! 0) = Fin w \<and> w < 0"
proof -
  have "cells (sim example_cfg example_polar example_blade (Suc 0)) ! 1 ! 0
        = out (body example_cfg example_polar example_blade 0 1 0)"
    by (rule cells_sim_Suc) simp_all
  moreover have "body example_cfg example_polar example_blade 0 1 0
        = element example_cfg example_polar example_blade
            (theta_blade_arr (sim example_cfg example_polar example_blade (Suc 0)) ! 0)
            (theta_pitch (sim example_cfg example_polar example_blade (Suc 0))) 1 zero_cell"
    by (rule body_first_step) simp_all
  moreover have "\<exists>w. Wz_qs_arr (out (element example_cfg example_polar example_blade
            (theta_blade_arr (sim example_cfg example_polar example_blade (Suc 0)) ! 0)
            (theta_pitch (sim example_cfg example_polar example_blade (Suc 0))) 1 zero_cell)) = Fin w \<and> w < 0"
    by (rule first_step_tip_qs) (simp_all add: R_def)
  ultimately show ?thesis
    by simp
qed

lemma example_phi:
  "phi (body example_cfg example_polar example_blade 0 0 0) = Fin (arctan (V_0 / (omega * 50)))"
  "phi (body example_cfg example_polar example_blade 0 1 0) = Fin (arctan (V_0 / (omega * 89.17)))"
proof -
  have "phi (element example_cfg example_polar example_blade th p k zero_cell)
         = Fin (arctan (V_0 / (omega * col_r example_blade ! k)))" if "k < 2" for th p k
    using that by (intro first_step_phi) (auto simp: less_2_cases_iff)
  then show "phi (body example_cfg example_polar example_blade 0 0 0) = Fin (arctan (V_0 / (omega * 50)))"
    and "phi (body example_cfg example_polar example_blade 0 1 0) = Fin (arctan (V_0 / (omega * 89.17)))"
    by (simp_all add: body_first_step del: sim.simps)
qed

lemma example_inflow_bounds:
  "0.18 < V_0 / (omega * 50)" "V_0 / (omega * 50) < 1"
proof -
  have "2 \<le> pi" "pi < 4"
    using pi_ge_two pi_less_4 by simp_all
  then have "24 < omega * 50" "omega * 50 < 49"
    by (simp_all add: omega_def)
  then show "0.18 < V_0 / (omega * 50)" "V_0 / (omega * 50) < 1"
    by (simp_all add: V_0_def field_simps)
qed

lemma example_sin_phi: "0.01 < sin \<bar>arctan (V_0 / (omega * 50))\<bar>"
proof -
  define x where "x = V_0 / (omega * 50)"
  have x: "0.18 < x" "x < 1"
    unfolding x_def by (rule example_inflow_bounds)+
  then have "x\<^sup>2 < 1"
    by (simp add: power_less_one_iff)
  then have "sqrt (1 + x\<^sup>2) \<le> sqrt 4"
    by (intro real_sqrt_le_mono) simp
  then have le2: "sqrt (1 + x\<^sup>2) \<le> 2"
    by simp
  have pos: "0 < sqrt (1 + x\<^sup>2)"
    by (simp add: add_pos_nonneg)
  have "x / 2 \<le> x / sqrt (1 + x\<^sup>2)"
    using x le2 pos by (intro divide_left_mono) simp_all
  moreover from x have "0.01 < x / 2"
    by simp
  ultimately have "0.01 < x / sqrt (1 + x\<^sup>2)"
    by (rule less_le_trans [rotated])
  moreover from x have "\<bar>arctan x\<bar> = arctan x"
    by simp
  ultimately show ?thesis
    unfolding x_def [symmetric] by (simp only: sin_arctan)
qed

lemma example_first_W:
  "\<exists>wy wz. Wy_arr (cells (sim example_cfg example_polar example_blade (Suc 0)) ! 0 ! 0) = Fin wy \<and> wy < 0
           \<and> Wz_arr (cells (sim example_cfg example_polar example_blade (Suc 0)) ! 0 ! 0) = Fin wz \<and> wz < 0"
proof -
  define t where "t = element example_cfg example_polar example_blade
            (theta_blade_arr (sim example_cfg example_polar example_blade (Suc 0)) ! 0)
            (theta_pitch (sim example_cfg example_polar example_blade (Suc 0))) 0 zero_cell"
  have "cells (sim example_cfg example_polar example_blade (Suc 0)) ! 0 ! 0
        = out (body example_cfg example_polar example_blade 0 0 0)"
    by (rule cells_sim_Suc) simp_all
  moreover have "body example_cfg example_polar example_blade 0 0 0 = t"
    unfolding t_def by (rule body_first_step) simp_all
  ultimately have c: "cells (sim example_cfg example_polar example_blade (Suc 0)) ! 0 ! 0 = out t"
    by simp
  have "\<exists>wy wz. Wy_qs_arr (out t) = Fin wy \<and> wy < 0 \<and> Wz_qs_arr (out t) = Fin wz \<and> wz < 0"
    unfolding t_def by (rule first_step_qs_neg) (simp_all add: R_def)
  moreover have "Wy_arr (out t) = Wy_qs_arr (out t)" "Wz_arr (out t) = Wz_qs_arr (out t)"
    unfolding t_def by (rule element_no_dwf, simp)+
  ultimately show ?thesis
    unfolding c by simp
qed

lemma example_V_rel:
  "V_rel_y_arr (cells (sim example_cfg example_polar example_blade (Suc 0)) ! 0 ! 0) = Fin (- (omega * 50))"
  "V_rel_z_arr (cells (sim example_cfg example_polar example_blade (Suc 0)) ! 0 ! 0) = Fin V_0"
proof -
  have c: "cells (sim example_cfg example_polar example_blade (Suc 0)) ! 0 ! 0
        = out (body example_cfg example_polar example_blade 0 0 0)"
    by (rule cells_sim_Suc) simp_all
  have b: "body example_cfg example_polar example_blade 0 0 0
        = element example_cfg example_polar example_blade
            (theta_blade_arr (sim example_cfg example_polar example_blade (Suc 0)) ! 0)
            (theta_pitch (sim example_cfg example_polar example_blade (Suc 0))) 0 zero_cell"
    by (rule body_first_step) simp_all
  show "V_rel_y_arr (cells (sim example_cfg example_polar example_blade (Suc 0)) ! 0 ! 0) = Fin (- (omega * 50))"
    unfolding c b by (simp add: first_step_V_rel)
  show "V_rel_z_arr (cells (sim example_cfg example_polar example_blade (Suc 0)) ! 0 ! 0) = Fin V_0"
    unfolding c b by (simp add: first_step_V_rel)
qed

section \<open>Auxiliary facts\<close>

lemma theta_blade_sim_Suc:
  "theta_blade_arr (sim cfg pol af (Suc n)) =
     [theta_blade_arr (sim cfg pol af n) ! 0 + omega * delta_t,
      theta_blade_arr (sim cfg pol af n) ! 0 + omega * delta_t + omega * delta_t + 0.666 * pi,
      theta_blade_arr (sim cfg pol af n) ! 0 + omega * delta_t + omega * delta_t + 1.333 * pi]"
  by (simp add: theta_blade_step)

lemma theta_pitch_sim_Suc:
  "theta_pitch (sim cfg pol af (Suc n)) =
     pitch_update cfg (real (Suc n) * delta_t) (theta_pitch (sim cfg pol af n))"
  by (simp add: step_def Let_def)

lemma theta_pitch_sim:
  "theta_pitch (sim cfg pol af n) =
     (if use_pitch cfg \<and> 100 \<le> real n * delta_t \<and> real n * delta_t \<le> 150 then deg2rad 2 else 0)"
proof (induction n)
  case 0
  show ?case by (simp add: init_def)
next
  case (Suc n)
  have "real n * delta_t \<le> real (Suc n) * delta_t"
    by (simp add: delta_t_def)
  with Suc show ?case
    unfolding theta_pitch_sim_Suc pitch_update_def by auto
qed

lemma theta_blade_init:
  "theta_blade_arr (sim cfg pol af 0) = [0, 2 * pi / 3, 4 * pi / 3]"
  by (simp add: init_def B_def numeral_3_eq_3)

lemma Fin_0_plus [simp]: "Fin 0 + u = u" "u + Fin 0 = u"
  by (cases u; simp)+

lemma np_sum_3: "np_sum [u, v, w] = u + v + w"
  by (simp add: np_sum_def)

lemma np_trapz_add:
  "length ys = length zs \<Longrightarrow>
   np_trapz (map2 (+) ys zs) xs = np_trapz ys xs + np_trapz zs xs"
proof (induction ys xs arbitrary: zs rule: np_trapz.induct)
  case (1 y0 y1 ys x0 x1 xs)
  from "1.prems" obtain z0 z1 zs' where zs: "zs = z0 # z1 # zs'"
    by (cases zs; simp) (metis length_Suc_conv)
  with "1.prems" have "length (y1 # ys) = length (z1 # zs')"
    by simp
  then have IH: "np_trapz (map2 (+) (y1 # ys) (z1 # zs')) (x1 # xs)
                 = np_trapz (y1 # ys) (x1 # xs) + np_trapz (z1 # zs') (x1 # xs)"
    by (rule "1.IH")
  have alg: "Fin e * ((y1 + z1) + (y0 + z0)) / Fin 2 + (s + t)
             = (Fin e * (y1 + y0) / Fin 2 + s) + (Fin e * (z1 + z0) / Fin 2 + t)" for e s t
    by (cases y0; cases y1; cases z0; cases z1; cases s; cases t; simp add: algebra_simps add_divide_distrib)
  show ?case
    using IH alg by (simp add: zs)
qed (auto simp: Suc_length_conv)

lemma rows_sum:
  assumes "\<forall>row \<in> set cs. length row = 3"
  shows "map (\<lambda>row. np_sum (map f row)) cs
         = map2 (+) (map2 (+) (map (\<lambda>row. f (row ! 0)) cs) (map (\<lambda>row. f (row ! 1)) cs))
                    (map (\<lambda>row. f (row ! 2)) cs)"
  using assms
proof (induction cs)
  case Nil
  show ?case by simp
next
  case (Cons row cs)
  then have "length row = 3" by simp
  then obtain u v w where "row = [u, v, w]"
    by (auto simp: numeral_3_eq_3 length_Suc_conv)
  with Cons show ?case
    by (simp add: np_sum_3)
qed

lemma upt_B: "[0..<B] = [0, 1, 2]"
  by (simp add: B_def upt_rec)

lemma replicate_B: "replicate B x = [x, x, x]"
  by (simp add: B_def numeral_3_eq_3)

section \<open>The claims\<close>

text \<open>
  Throughout, \<open>sim cfg pol af (Suc n)\<close> is the state at a step \<open>n + 1 \<ge> 1\<close> of the time
  loop, for any switches \<open>cfg\<close>, polar lookup \<open>pol\<close> and blade table \<open>af\<close>; \<open>k\<close> ranges
  over the rows of the blade table and \<open>i\<close> over the \<open>B = 3\<close> blades.
\<close>

text \<open>
  C1. The claim is that at every step \<open>n \<ge> 1\<close> the azimuth of blade \<open>j\<close> minus the
  azimuth of blade \<open>0\<close> is the phase offset \<open>j * 2\<pi> / B\<close>, up to rounding. The code does
  not do that. The array starts with the offsets \<open>2\<pi>/3\<close> and \<open>4\<pi>/3\<close> at step \<open>0\<close>, and
  blade \<open>0\<close> is advanced by \<open>omega * delta_t\<close> in every step, as the claim says. But
  blades \<open>1\<close> and \<open>2\<close> are set from the new azimuth of blade \<open>0\<close> plus \<open>omega * delta_t\<close>
  once more, plus \<open>0.666 \<pi>\<close> and \<open>1.333 \<pi>\<close>. So at every step \<open>n \<ge> 1\<close> the spacing is
  \<open>omega * delta_t + 0.666 \<pi>\<close> and \<open>omega * delta_t + 1.333 \<pi>\<close>, more than \<open>0.07\<close>
  radians (four degrees) away from \<open>2\<pi>/3\<close> and \<open>4\<pi>/3\<close>.
\<close>

theorem azimuth_spacing_off:
  "theta_blade_arr (sim cfg pol af 0) = [0, 2 * pi / 3, 4 * pi / 3]
   \<and> theta_blade_arr (sim cfg pol af (Suc n)) ! 0 = theta_blade_arr (sim cfg pol af n) ! 0 + omega * delta_t
   \<and> theta_blade_arr (sim cfg pol af (Suc n)) ! 1 - theta_blade_arr (sim cfg pol af (Suc n)) ! 0
       = omega * delta_t + 0.666 * pi
   \<and> theta_blade_arr (sim cfg pol af (Suc n)) ! 2 - theta_blade_arr (sim cfg pol af (Suc n)) ! 0
       = omega * delta_t + 1.333 * pi
   \<and> 0.07 < \<bar>(theta_blade_arr (sim cfg pol af (Suc n)) ! 1 - theta_blade_arr (sim cfg pol af (Suc n)) ! 0)
              - 2 * pi / 3\<bar>
   \<and> 0.07 < \<bar>(theta_blade_arr (sim cfg pol af (Suc n)) ! 2 - theta_blade_arr (sim cfg pol af (Suc n)) ! 0)
              - 4 * pi / 3\<bar>"
proof -
  have "2 \<le> pi" by (rule pi_ge_two)
  then show ?thesis
    unfolding theta_blade_sim_Suc theta_blade_init by (simp add: omega_def delta_t_def)
qed

theorem azimuth_spacing_off_witness:
  "theta_blade_arr (sim example_cfg example_polar example_blade (Suc 0)) ! 1
   - theta_blade_arr (sim example_cfg example_polar example_blade (Suc 0)) ! 0
   = omega * delta_t + 0.666 * pi
   \<and> 0.07 < \<bar>(theta_blade_arr (sim example_cfg example_polar example_blade (Suc 0)) ! 1
              - theta_blade_arr (sim example_cfg example_polar example_blade (Suc 0)) ! 0)
              - 2 * pi / 3\<bar>"
  using azimuth_spacing_off [of example_cfg example_polar example_blade 0] by blast

text \<open>
  C2. At every step \<open>n \<ge> 1\<close> and for every blade, the normal and the tangential load
  stored for the outermost element (the last row of the blade table) are exactly zero.
\<close>

theorem tip_load_zero:
  assumes "af \<noteq> []" and "i < B"
  shows "pn_arr (cells (sim cfg pol af (Suc n)) ! (length af - 1) ! i) = Fin 0
       \<and> pt_arr (cells (sim cfg pol af (Suc n)) ! (length af - 1) ! i) = Fin 0"
proof -
  from assms(1) have "length af - 1 < length af"
    by (cases af) simp_all
  then have "cells (sim cfg pol af (Suc n)) ! (length af - 1) ! i
             = out (body cfg pol af n (length af - 1) i)"
    using assms(2) by (rule cells_sim_Suc)
  then show ?thesis
    by (simp add: body_def element_loads)
qed

theorem tip_load_zero_witness:
  "example_blade \<noteq> [] \<and> 0 < B
   \<and> pn_arr (cells (sim example_cfg example_polar example_blade (Suc 0)) ! 1 ! 0) = Fin 0
   \<and> pt_arr (cells (sim example_cfg example_polar example_blade (Suc 0)) ! 1 ! 0) = Fin 0"
proof -
  have h: "example_blade \<noteq> []" "0 < B"
    by (simp_all add: example_blade_def)
  from tip_load_zero [OF h, of example_cfg example_polar 0] h show ?thesis
    by (simp del: sim.simps)
qed

text \<open>
  C3. At every step \<open>n \<ge> 1\<close>, for every blade and every element whose radius lies on the
  blade (\<open>0 < r \<le> R\<close>) and whose inflow angle is a finite number \<open>p\<close>: Prandtl's factor
  \<open>F\<close> is a number in \<open>(0, 1]\<close>; it is exactly \<open>1\<close> when \<open>sin \<bar>p\<bar> \<le> 0.01\<close> or the
  radius is within \<open>0.005\<close> of \<open>R\<close>; otherwise it is
  \<open>(2/\<pi>) arccos (exp (- (B/2) (R - r) / (r sin \<bar>p\<bar>)))\<close>.
\<close>

theorem prandtl_factor:
  assumes "k < length af" and "i < B"
    and "phi (body cfg pol af n k i) = Fin p"
    and "0 < col_r af ! k" and "col_r af ! k \<le> R"
  shows "\<exists>f. F (body cfg pol af n k i) = Fin f \<and> 0 < f \<and> f \<le> 1
           \<and> (if sin \<bar>p\<bar> \<le> 0.01 \<or> \<bar>R - col_r af ! k\<bar> \<le> 0.005 then f = 1
               else f = 2 / pi * arccos (exp (- (real B / 2)
                          * ((R - col_r af ! k) / (col_r af ! k * sin \<bar>p\<bar>)))))"
proof -
  have "F (body cfg pol af n k i) = prandtl (Fin p) (col_r af ! k)"
    using assms(3) by (simp add: body_def element_F)
  with prandtl_range [OF assms(4,5), of p] show ?thesis
    by simp
qed

theorem prandtl_factor_witness:
  "0 < length example_blade \<and> 1 < length example_blade \<and> 0 < B
   \<and> 0 < col_r example_blade ! 0 \<and> col_r example_blade ! 0 \<le> R
   \<and> 0 < col_r example_blade ! 1 \<and> col_r example_blade ! 1 \<le> R
   \<and> phi (body example_cfg example_polar example_blade 0 0 0) = Fin (arctan (V_0 / (omega * 50)))
   \<and> phi (body example_cfg example_polar example_blade 0 1 0) = Fin (arctan (V_0 / (omega * 89.17)))
   \<and> F (body example_cfg example_polar example_blade 0 0 0)
       = Fin (2 / pi * arccos (exp (- (real B / 2)
                * ((R - 50) / (50 * sin \<bar>arctan (V_0 / (omega * 50))\<bar>)))))
   \<and> F (body example_cfg example_polar example_blade 0 1 0) = Fin 1"
proof -
  have h: "0 < length example_blade" "1 < length example_blade" "0 < B"
    "0 < col_r example_blade ! 0" "col_r example_blade ! 0 \<le> R"
    "0 < col_r example_blade ! 1" "col_r example_blade ! 1 \<le> R"
    by (simp_all add: R_def)
  have far: "\<not> (sin \<bar>arctan (V_0 / (omega * 50))\<bar> \<le> 0.01 \<or> \<bar>R - col_r example_blade ! 0\<bar> \<le> 0.005)"
    using example_sin_phi by (simp add: R_def)
  from prandtl_factor [OF h(1,3) example_phi(1) h(4,5)] far
  have mid: "F (body example_cfg example_polar example_blade 0 0 0)
       = Fin (2 / pi * arccos (exp (- (real B / 2)
                * ((R - 50) / (50 * sin \<bar>arctan (V_0 / (omega * 50))\<bar>)))))"
    by (auto simp del: sim.simps)
  from prandtl_factor [OF h(2,3) example_phi(2) h(6,7)]
  have tip: "F (body example_cfg example_polar example_blade 0 1 0) = Fin 1"
    by (auto simp del: sim.simps simp add: R_def)
  from h example_phi mid tip show ?thesis
    by (intro conjI)
qed

text \<open>
  C4, as stated: the inflow angle agrees with \<open>atan2 V_rel_z (- V_rel_y)\<close> for every
  combination of signs of the two relative velocities. That fails where the in-plane
  relative velocity is positive: for \<open>V_rel_z = 1\<close> and \<open>V_rel_y = 1\<close> line 235 yields
  \<open>arctan (1 / (- 1)) = - \<pi>/4\<close>, and \<open>atan2 1 (- 1) = 3\<pi>/4\<close>.
\<close>

theorem inflow_angle_not_atan2: "inflow_angle (Fin 1) (Fin 1) \<noteq> Fin (atan2 1 (- 1))"
proof -
  have "inflow_angle (Fin 1) (Fin 1) = Fin (- (pi / 4))"
    by (simp add: inflow_angle_def arctan_minus arctan_one)
  moreover have "atan2 1 (- 1) = 3 * pi / 4"
    by (simp add: atan2_def arctan_minus arctan_one)
  moreover have "- (pi / 4) \<noteq> 3 * pi / 4"
    using pi_gt_zero by linarith
  ultimately show ?thesis
    by (metis fl.inject)
qed

text \<open>
  C4, amended. At every step \<open>n \<ge> 1\<close>, for every blade and element, the inflow angle is
  the arctangent of the quotient of the out-of-plane relative velocity by the negated
  in-plane relative velocity, an angle in \<open>(- \<pi>/2, \<pi>/2)\<close>; it agrees with
  \<open>atan2 V_rel_z (- V_rel_y)\<close> when the negated in-plane relative velocity is positive.
  The angle of attack, in degrees, is the inflow angle in degrees minus the sum of the
  local twist (in degrees) and the pitch converted to degrees: the inflow angle minus
  (twist + pitch).
\<close>

theorem inflow_angle_arctan:
  fixes cfg :: config and pol :: polar and af :: airfoils and n k i :: nat
  assumes "k < length af" and "i < B"
  defines "t \<equiv> body cfg pol af n k i"
    and "c \<equiv> cells (sim cfg pol af (Suc n)) ! k ! i"
  shows "phi t = np_arctan (V_rel_z_arr c / (- V_rel_y_arr c))
       \<and> (\<forall>vz vy. V_rel_z_arr c = Fin vz \<and> V_rel_y_arr c = Fin vy \<and> vy \<noteq> 0
            \<longrightarrow> phi t = Fin (arctan (vz / (- vy))) \<and> - (pi / 2) < arctan (vz / (- vy))
                \<and> arctan (vz / (- vy)) < pi / 2)
       \<and> (\<forall>vz vy. V_rel_z_arr c = Fin vz \<and> V_rel_y_arr c = Fin vy \<and> vy < 0
            \<longrightarrow> phi t = Fin (atan2 vz (- vy)))
       \<and> aoa_deg t = np_rad2deg (phi t)
                      - Fin (col_beta_deg af ! k + rad2deg (theta_pitch (sim cfg pol af (Suc n))))
       \<and> (\<forall>ph. phi t = Fin ph
            \<longrightarrow> aoa_deg t = Fin (rad2deg (ph - (deg2rad (col_beta_deg af ! k)
                                                 + theta_pitch (sim cfg pol af (Suc n))))))"
proof -
  have c: "c = out t"
    unfolding c_def t_def using assms(1,2) by (rule cells_sim_Suc)
  have ph: "phi t = np_arctan (V_rel_z_arr c / (- V_rel_y_arr c))"
    unfolding c by (simp add: t_def body_def element_phi inflow_angle_def)
  have aoa: "aoa_deg t = np_rad2deg (phi t)
                      - Fin (col_beta_deg af ! k + rad2deg (theta_pitch (sim cfg pol af (Suc n))))"
    by (simp add: t_def body_def element_phi)
  have deg: "rad2deg ph - (b + rad2deg q) = rad2deg (ph - (deg2rad b + q))" for ph b q
    by (simp add: rad2deg_def deg2rad_def algebra_simps)
  show ?thesis
  proof (intro conjI allI impI)
    show "phi t = np_arctan (V_rel_z_arr c / (- V_rel_y_arr c))"
      by (rule ph)
    show "aoa_deg t = np_rad2deg (phi t)
                      - Fin (col_beta_deg af ! k + rad2deg (theta_pitch (sim cfg pol af (Suc n))))"
      by (rule aoa)
  next
    fix vz vy
    assume "V_rel_z_arr c = Fin vz \<and> V_rel_y_arr c = Fin vy \<and> vy \<noteq> 0"
    then show "phi t = Fin (arctan (vz / (- vy)))"
      by (simp add: ph)
  next
    fix vz vy :: real
    show "- (pi / 2) < arctan (vz / (- vy))"
      by (rule arctan_lbound)
    show "arctan (vz / (- vy)) < pi / 2"
      by (rule arctan_ubound)
  next
    fix vz vy
    assume "V_rel_z_arr c = Fin vz \<and> V_rel_y_arr c = Fin vy \<and> vy < 0"
    then show "phi t = Fin (atan2 vz (- vy))"
      by (simp add: ph atan2_def)
  next
    fix ph
    assume "phi t = Fin ph"
    then show "aoa_deg t = Fin (rad2deg (ph - (deg2rad (col_beta_deg af ! k)
                                                 + theta_pitch (sim cfg pol af (Suc n)))))"
      unfolding aoa by (simp only: np_fun fl_arith deg)
  qed
qed

theorem inflow_angle_arctan_witness:
  "0 < length example_blade \<and> 0 < B
   \<and> V_rel_z_arr (cells (sim example_cfg example_polar example_blade (Suc 0)) ! 0 ! 0) = Fin V_0
   \<and> V_rel_y_arr (cells (sim example_cfg example_polar example_blade (Suc 0)) ! 0 ! 0)
       = Fin (- (omega * 50))
   \<and> - (omega * 50) < 0
   \<and> phi (body example_cfg example_polar example_blade 0 0 0) = Fin (atan2 V_0 (omega * 50))"
proof -
  have h: "0 < length example_blade" "0 < B"
    by simp_all
  have neg: "- (omega * 50) < 0"
    using omega_pos by simp
  from inflow_angle_arctan [OF h, of example_cfg example_polar 0]
  have "\<forall>vz vy. V_rel_z_arr (cells (sim example_cfg example_polar example_blade (Suc 0)) ! 0 ! 0) = Fin vz
          \<and> V_rel_y_arr (cells (sim example_cfg example_polar example_blade (Suc 0)) ! 0 ! 0) = Fin vy
          \<and> vy < 0
          \<longrightarrow> phi (body example_cfg example_polar example_blade 0 0 0) = Fin (atan2 vz (- vy))"
    by blast
  with example_V_rel neg
  have "phi (body example_cfg example_polar example_blade 0 0 0) = Fin (atan2 V_0 (- (- (omega * 50))))"
    by blast
  with h neg example_V_rel show ?thesis
    by simp
qed



text \<open>
  C6, as stated: with the dynamic wake filter disabled, the induced velocity of step \<open>n\<close>
  is the quasi-steady value of step \<open>n\<close> and has no memory of earlier induced
  velocities. The second half fails. The quasi-steady value is computed from the relative
  velocity, the induction factor and the wake speed \<open>V_f_W\<close>, and lines 232, 233, 258 and
  265 read the induced velocity of step \<open>n - 1\<close> for them. In the first step of the small
  run, blade \<open>0\<close>, element \<open>0\<close>, the stored \<open>Wy\<close> is a negative number; had the induced
  velocity \<open>Wz\<close> of step \<open>0\<close> been \<open>- V_0\<close> instead of \<open>0\<close>, everything else the same, the
  inflow angle would be \<open>0\<close> and \<open>Wy\<close> would be \<open>0\<close>.
\<close>

theorem wake_reads_previous_W:
  "Wy_arr (out (element example_cfg example_polar example_blade
                  (theta_blade_arr (sim example_cfg example_polar example_blade (Suc 0)) ! 0)
                  (theta_pitch (sim example_cfg example_polar example_blade (Suc 0))) 0
                  ((cells (sim example_cfg example_polar example_blade 0) ! 0 ! 0)
                     \<lparr>Wz_arr := Fin (- V_0)\<rparr>)))
   \<noteq> Wy_arr (cells (sim example_cfg example_polar example_blade (Suc 0)) ! 0 ! 0)"
proof -
  define th where "th = theta_blade_arr (sim example_cfg example_polar example_blade (Suc 0)) ! 0"
  define p where "p = theta_pitch (sim example_cfg example_polar example_blade (Suc 0))"
  define prev where "prev = zero_cell\<lparr>Wz_arr := Fin (- V_0)\<rparr>"
  have init: "cells (sim example_cfg example_polar example_blade 0) ! 0 ! 0 = zero_cell"
    by (rule cells_init) simp_all
  have "Wy_qs_arr (out (element example_cfg example_polar example_blade th p 0 prev)) = Fin 0"
    by (rule full_induction_Wy_qs) (simp_all add: prev_def zero_cell_def)
  moreover have "Wy_arr (out (element example_cfg example_polar example_blade th p 0 prev))
        = Wy_qs_arr (out (element example_cfg example_polar example_blade th p 0 prev))"
    by (rule element_no_dwf) simp
  ultimately have changed: "Wy_arr (out (element example_cfg example_polar example_blade th p 0 prev)) = Fin 0"
    by simp
  from example_first_W obtain wy
    where "Wy_arr (cells (sim example_cfg example_polar example_blade (Suc 0)) ! 0 ! 0) = Fin wy"
      and "wy < 0"
    by blast
  with changed show ?thesis
    unfolding init th_def [symmetric] p_def [symmetric] prev_def [symmetric] by simp
qed

text \<open>
  C6, amended. With the dynamic wake filter disabled, at every step \<open>n \<ge> 1\<close>, for every
  blade and element, both components of the induced velocity stored at step \<open>n\<close> are the
  quasi-steady components of step \<open>n\<close>, with no lag: the state of the filter is not read,
  so whatever the quasi-steady and intermediate induced velocities \<open>Wy_qs\<close>, \<open>Wz_qs\<close>,
  \<open>Wy_int\<close>, \<open>Wz_int\<close> of step \<open>n - 1\<close> are replaced by (\<open>u1\<close>, \<open>u2\<close>, \<open>u3\<close>, \<open>u4\<close>), the
  induced velocity of step \<open>n\<close> is the same. The quasi-steady value itself does remember
  the induced velocity \<open>Wy\<close>, \<open>Wz\<close> of step \<open>n - 1\<close>: it is
  \<open>- B l sin \<phi> / (4 \<pi> \<rho> r F V_f_W)\<close> and \<open>- B l cos \<phi> / (4 \<pi> \<rho> r F V_f_W)\<close>, where the
  inflow angle \<open>\<phi>\<close> and the lift \<open>l\<close> come from the relative velocity
  \<open>V_rel_y = V0y + Wy[n-1] - omega r cos theta_cone\<close>, \<open>V_rel_z = V0z + Wz[n-1]\<close>, and
  \<open>V_f_W\<close> from \<open>a = - Wz[n-1] / V_0\<close>. In the first step of the small run, where the
  induced velocity of step \<open>0\<close> is zero, both stored components are negative numbers.
\<close>

theorem no_wake_filter:
  fixes cfg :: config and pol :: polar and af :: airfoils and n k i :: nat
  assumes "\<not> use_dwf cfg" and "k < length af" and "i < B"
  defines "t \<equiv> body cfg pol af n k i"
    and "c \<equiv> cells (sim cfg pol af (Suc n)) ! k ! i"
    and "c' \<equiv> cells (sim cfg pol af n) ! k ! i"
    and "th \<equiv> theta_blade_arr (sim cfg pol af (Suc n)) ! i"
    and "p \<equiv> theta_pitch (sim cfg pol af (Suc n))"
  shows "Wy_arr c = Wy_qs_arr c \<and> Wz_arr c = Wz_qs_arr c
       \<and> Wy_arr c = Wy_arr (out (element cfg pol af th p k
                        (c'\<lparr>Wy_qs_arr := u1, Wz_qs_arr := u2, Wy_int_arr := u3, Wz_int_arr := u4\<rparr>)))
       \<and> Wz_arr c = Wz_arr (out (element cfg pol af th p k
                        (c'\<lparr>Wy_qs_arr := u1, Wz_qs_arr := u2, Wy_int_arr := u3, Wz_int_arr := u4\<rparr>)))
       \<and> Wy_qs_arr c = (- Fin (real B) * l t * np_sin (phi t))
                        / (Fin 4 * Fin pi * Fin rho * Fin (col_r af ! k) * F t * V_f_W t)
       \<and> Wz_qs_arr c = (- Fin (real B) * l t * np_cos (phi t))
                        / (Fin 4 * Fin pi * Fin rho * Fin (col_r af ! k) * F t * V_f_W t)
       \<and> phi t = inflow_angle (V_rel_z_arr c) (V_rel_y_arr c)
       \<and> V_rel_y_arr c = V0y_arr c + Wy_arr c' - Fin (omega * col_r af ! k * cos theta_cone)
       \<and> V_rel_z_arr c = V0z_arr c + Wz_arr c'
       \<and> V_rel_abs t = np_sqrt (sq (V_rel_y_arr c) + sq (V_rel_z_arr c))
       \<and> l t = Fin 0.5 * Fin rho * sq (V_rel_abs t) * Fin (col_c af ! k) * cl_arr c
       \<and> a t = - Wz_arr c' / Fin V_0
       \<and> V_f_W t = np_sqrt (sq (V0y_arr c) + sq (V0z_arr c + glauert (a t) * Wz_arr c'))
       \<and> (\<exists>wy wz. Wy_arr (cells (sim example_cfg example_polar example_blade (Suc 0)) ! 0 ! 0) = Fin wy
                  \<and> wy < 0
                  \<and> Wz_arr (cells (sim example_cfg example_polar example_blade (Suc 0)) ! 0 ! 0) = Fin wz
                  \<and> wz < 0)"
proof -
  have t: "t = element cfg pol af th p k c'"
    unfolding t_def c'_def th_def p_def by (rule body_def)
  have c: "c = out (element cfg pol af th p k c')"
    unfolding c_def t [symmetric] t_def using assms(2,3) by (rule cells_sim_Suc)
  show ?thesis
    unfolding c t
  proof (intro conjI)
    show "Wy_arr (out (element cfg pol af th p k c')) = Wy_qs_arr (out (element cfg pol af th p k c'))"
      and "Wz_arr (out (element cfg pol af th p k c')) = Wz_qs_arr (out (element cfg pol af th p k c'))"
      using assms(1) by (rule element_no_dwf)+
    show "Wy_arr (out (element cfg pol af th p k c'))
          = Wy_arr (out (element cfg pol af th p k
              (c'\<lparr>Wy_qs_arr := u1, Wz_qs_arr := u2, Wy_int_arr := u3, Wz_int_arr := u4\<rparr>)))"
      and "Wz_arr (out (element cfg pol af th p k c'))
          = Wz_arr (out (element cfg pol af th p k
              (c'\<lparr>Wy_qs_arr := u1, Wz_qs_arr := u2, Wy_int_arr := u3, Wz_int_arr := u4\<rparr>)))"
      using assms(1) by (rule element_no_dwf_state [symmetric])+
    show "Wy_qs_arr (out (element cfg pol af th p k c'))
          = (- Fin (real B) * l (element cfg pol af th p k c') * np_sin (phi (element cfg pol af th p k c')))
            / (Fin 4 * Fin pi * Fin rho * Fin (col_r af ! k) * F (element cfg pol af th p k c')
               * V_f_W (element cfg pol af th p k c'))"
      and "Wz_qs_arr (out (element cfg pol af th p k c'))
          = (- Fin (real B) * l (element cfg pol af th p k c') * np_cos (phi (element cfg pol af th p k c')))
            / (Fin 4 * Fin pi * Fin rho * Fin (col_r af ! k) * F (element cfg pol af th p k c')
               * V_f_W (element cfg pol af th p k c'))"
      by (rule element_qs)+
    show "phi (element cfg pol af th p k c')
          = inflow_angle (V_rel_z_arr (out (element cfg pol af th p k c')))
                         (V_rel_y_arr (out (element cfg pol af th p k c')))"
      by (rule element_phi)
    show "V_rel_y_arr (out (element cfg pol af th p k c'))
          = V0y_arr (out (element cfg pol af th p k c')) + Wy_arr c'
            - Fin (omega * col_r af ! k * cos theta_cone)"
      and "V_rel_z_arr (out (element cfg pol af th p k c'))
          = V0z_arr (out (element cfg pol af th p k c')) + Wz_arr c'"
      by (rule element_V_rel)+
    show "V_rel_abs (element cfg pol af th p k c')
          = np_sqrt (sq (V_rel_y_arr (out (element cfg pol af th p k c')))
                   + sq (V_rel_z_arr (out (element cfg pol af th p k c'))))"
      by (rule element_V_rel_abs)
    show "l (element cfg pol af th p k c')
          = Fin 0.5 * Fin rho * sq (V_rel_abs (element cfg pol af th p k c')) * Fin (col_c af ! k)
            * cl_arr (out (element cfg pol af th p k c'))"
      by (rule element_lift)
    show "a (element cfg pol af th p k c') = - Wz_arr c' / Fin V_0"
      by (rule element_wake)
    show "V_f_W (element cfg pol af th p k c')
          = np_sqrt (sq (V0y_arr (out (element cfg pol af th p k c')))
                   + sq (V0z_arr (out (element cfg pol af th p k c'))
                         + glauert (a (element cfg pol af th p k c')) * Wz_arr c'))"
      by (simp only: element_wake(3) element_wake(2))
    show "\<exists>wy wz. Wy_arr (cells (sim example_cfg example_polar example_blade (Suc 0)) ! 0 ! 0) = Fin wy
                  \<and> wy < 0
                  \<and> Wz_arr (cells (sim example_cfg example_polar example_blade (Suc 0)) ! 0 ! 0) = Fin wz
                  \<and> wz < 0"
      by (rule example_first_W)
  qed
qed

theorem no_wake_filter_witness:
  "\<not> use_dwf example_cfg \<and> 0 < length example_blade \<and> 0 < B
   \<and> Wy_arr (cells (sim example_cfg example_polar example_blade (Suc 0)) ! 0 ! 0)
       = Wy_qs_arr (cells (sim example_cfg example_polar example_blade (Suc 0)) ! 0 ! 0)
   \<and> Wz_arr (cells (sim example_cfg example_polar example_blade (Suc 0)) ! 0 ! 0)
       = Wz_qs_arr (cells (sim example_cfg example_polar example_blade (Suc 0)) ! 0 ! 0)
   \<and> V_rel_z_arr (cells (sim example_cfg example_polar example_blade (Suc 0)) ! 0 ! 0)
       = V0z_arr (cells (sim example_cfg example_polar example_blade (Suc 0)) ! 0 ! 0)
         + Wz_arr (cells (sim example_cfg example_polar example_blade 0) ! 0 ! 0)"
proof -
  have h: "\<not> use_dwf example_cfg" "0 < length example_blade" "0 < B"
    by simp_all
  from no_wake_filter [OF h, of example_polar 0] h show ?thesis
    by blast
qed

text \<open>
  C7. With dynamic stall disabled, at every step \<open>n \<ge> 1\<close>, for every blade and element,
  the lift coefficient stored and used for the lift is the first component of what the
  polar lookup returns at the current angle of attack and the thickness ratio of the
  element.
\<close>

theorem static_lift:
  fixes cfg :: config and pol :: polar and af :: airfoils and n k i :: nat
  assumes "\<not> use_stall cfg" and "k < length af" and "i < B"
  defines "t \<equiv> body cfg pol af n k i"
    and "c \<equiv> cells (sim cfg pol af (Suc n)) ! k ! i"
  shows "cl_arr c = fst (pol (aoa_deg t) (col_tc af ! k))
       \<and> l t = Fin 0.5 * Fin rho * sq (V_rel_abs t) * Fin (col_c af ! k)
                 * fst (pol (aoa_deg t) (col_tc af ! k))"
proof -
  have c: "c = out t"
    unfolding c_def t_def using assms(2,3) by (rule cells_sim_Suc)
  have "cl t = fst (pol (aoa_deg t) (col_tc af ! k))"
    using element_coeffs [of cfg pol af _ _ k, symmetric] by (simp add: t_def body_def)
  moreover have "cl_arr (out t) = cl t"
    using assms(1) by (simp add: t_def body_def element_stall)
  moreover have "l t = Fin 0.5 * Fin rho * sq (V_rel_abs t) * Fin (col_c af ! k) * cl_arr (out t)"
    by (simp add: t_def body_def element_lift)
  ultimately show ?thesis
    unfolding c by simp
qed

theorem static_lift_witness:
  "\<not> use_stall example_cfg \<and> 0 < length example_blade \<and> 0 < B
   \<and> cl_arr (cells (sim example_cfg example_polar example_blade (Suc 0)) ! 0 ! 0) = Fin 1"
proof -
  have h: "\<not> use_stall example_cfg" "0 < length example_blade" "0 < B"
    by simp_all
  from static_lift [OF h, of example_polar 0]
  have "cl_arr (cells (sim example_cfg example_polar example_blade (Suc 0)) ! 0 ! 0) = Fin 1"
    by (simp del: sim.simps)
  with h show ?thesis
    by blast
qed

text \<open>
  C8. The pitch used at step \<open>n\<close> is a function of the time \<open>n * delta_t\<close> alone: with
  pitch control enabled it is two degrees when \<open>100 \<le> n * delta_t \<le> 150\<close> and zero before
  and after; with pitch control disabled it is always zero. (The variable is carried from
  step to step and keeps its value before the window, but that value is still the initial
  zero, since time only increases.)
\<close>

theorem pitch_schedule:
  "theta_pitch (sim cfg pol af n) =
     (if use_pitch cfg \<and> 100 \<le> real n * delta_t \<and> real n * delta_t \<le> 150 then deg2rad 2 else 0)
   \<and> rad2deg (theta_pitch (sim cfg pol af n)) =
     (if use_pitch cfg \<and> 100 \<le> real n * delta_t \<and> real n * delta_t \<le> 150 then 2 else 0)"
  unfolding theta_pitch_sim by (simp add: rad2deg_def deg2rad_def)

theorem pitch_schedule_witness:
  "theta_pitch (sim example_cfg example_polar example_blade 600) = 0
   \<and> theta_pitch (sim example_cfg example_polar example_blade 700) = deg2rad 2
   \<and> theta_pitch (sim example_cfg example_polar example_blade 1100) = 0
   \<and> rad2deg (theta_pitch (sim example_cfg example_polar example_blade 700)) = 2
   \<and> theta_pitch (sim (example_cfg\<lparr>use_pitch := False\<rparr>) example_polar example_blade 700) = 0"
proof -
  from pitch_schedule [of example_cfg example_polar example_blade 600]
  have before: "theta_pitch (sim example_cfg example_polar example_blade 600) = 0"
    by (simp add: delta_t_def)
  from pitch_schedule [of example_cfg example_polar example_blade 700]
  have inside: "theta_pitch (sim example_cfg example_polar example_blade 700) = deg2rad 2"
    "rad2deg (theta_pitch (sim example_cfg example_polar example_blade 700)) = 2"
    by (simp_all add: delta_t_def rad2deg_def deg2rad_def)
  from pitch_schedule [of example_cfg example_polar example_blade 1100]
  have after: "theta_pitch (sim example_cfg example_polar example_blade 1100) = 0"
    by (simp add: delta_t_def)
  from pitch_schedule [of "example_cfg\<lparr>use_pitch := False\<rparr>" example_polar example_blade 700]
  have disabled: "theta_pitch (sim (example_cfg\<lparr>use_pitch := False\<rparr>) example_polar example_blade 700) = 0"
    by simp
  from before inside after disabled show ?thesis
    by (intro conjI)
qed

text \<open>
  C9. At every step \<open>n \<ge> 1\<close> the total thrust, the trapezoidal integral over the radius
  of the normal load summed over the blades, is the sum of the three per-blade thrusts,
  each the trapezoidal integral of the normal load of one blade.
\<close>

theorem thrust_sum:
  "T_arr (sim cfg pol af (Suc n))
   = T_all_arr (sim cfg pol af (Suc n)) ! 0 + T_all_arr (sim cfg pol af (Suc n)) ! 1
     + T_all_arr (sim cfg pol af (Suc n)) ! 2"
proof -
  define cs where "cs = cells (sim cfg pol af (Suc n))"
  have rows: "\<forall>row \<in> set cs. length row = 3"
    by (auto simp: cs_def step_def Let_def B_def)
  have T: "T_arr (sim cfg pol af (Suc n)) = np_trapz (map (\<lambda>row. np_sum (map pn_arr row)) cs) (col_r af)"
    by (simp add: cs_def step_def Let_def)
  have T_all: "T_all_arr (sim cfg pol af (Suc n))
               = [np_trapz (map (\<lambda>row. pn_arr (row ! 0)) cs) (col_r af),
                  np_trapz (map (\<lambda>row. pn_arr (row ! 1)) cs) (col_r af),
                  np_trapz (map (\<lambda>row. pn_arr (row ! 2)) cs) (col_r af)]"
    by (simp add: cs_def step_def Let_def replicate_B)
  show ?thesis
    unfolding T T_all rows_sum [OF rows] by (simp add: np_trapz_add)
qed

theorem thrust_sum_witness:
  "T_arr (sim example_cfg example_polar example_blade (Suc 0))
   = T_all_arr (sim example_cfg example_polar example_blade (Suc 0)) ! 0
     + T_all_arr (sim example_cfg example_polar example_blade (Suc 0)) ! 1
     + T_all_arr (sim example_cfg example_polar example_blade (Suc 0)) ! 2"
  using thrust_sum [of example_cfg example_polar example_blade 0] .

text \<open>
  C10. At every step \<open>n \<ge> 1\<close> and for every blade, the quasi-steady induced velocity of the
  outermost element is computed from the lift \<open>l\<close>, which is not set to zero there:
  \<open>Wz_qs = - B l cos \<phi> / (4 \<pi> \<rho> r F V_f_W)\<close>, and \<open>Wy_qs\<close> likewise with \<open>sin \<phi>\<close>,
  while the stored loads of that element are zero. The induced velocity is not zero in
  general: in the first step of the small run its out-of-plane component at the tip is a
  negative number, and the stored normal load there is zero.
\<close>

theorem tip_induced_velocity:
  fixes cfg :: config and pol :: polar and af :: airfoils and n i :: nat
  assumes "af \<noteq> []" and "i < B"
  defines "k \<equiv> length af - 1"
  defines "t \<equiv> body cfg pol af n k i"
    and "c \<equiv> cells (sim cfg pol af (Suc n)) ! k ! i"
  shows "l t = Fin 0.5 * Fin rho * sq (V_rel_abs t) * Fin (col_c af ! k) * cl_arr c
       \<and> Wz_qs_arr c = (- Fin (real B) * l t * np_cos (phi t))
                        / (Fin 4 * Fin pi * Fin rho * Fin (col_r af ! k) * F t * V_f_W t)
       \<and> Wy_qs_arr c = (- Fin (real B) * l t * np_sin (phi t))
                        / (Fin 4 * Fin pi * Fin rho * Fin (col_r af ! k) * F t * V_f_W t)
       \<and> pn_arr c = Fin 0 \<and> pt_arr c = Fin 0
       \<and> (\<exists>w. Wz_qs_arr (cells (sim example_cfg example_polar example_blade (Suc 0)) ! 1 ! 0) = Fin w
              \<and> w < 0)
       \<and> pn_arr (cells (sim example_cfg example_polar example_blade (Suc 0)) ! 1 ! 0) = Fin 0"
proof -
  from assms(1) have k: "k < length af"
    unfolding k_def by (cases af) simp_all
  have c: "c = out t"
    unfolding c_def t_def using k assms(2) by (rule cells_sim_Suc)
  have "cells (sim example_cfg example_polar example_blade (Suc 0)) ! 1 ! 0
        = out (body example_cfg example_polar example_blade 0 1 0)"
    by (rule cells_sim_Suc) simp_all
  then have ex: "pn_arr (cells (sim example_cfg example_polar example_blade (Suc 0)) ! 1 ! 0) = Fin 0"
    by (simp add: body_def element_loads del: sim.simps)
  have lift: "l t = Fin 0.5 * Fin rho * sq (V_rel_abs t) * Fin (col_c af ! k) * cl_arr (out t)"
    unfolding t_def body_def by (rule element_lift)
  have qs: "Wz_qs_arr (out t) = (- Fin (real B) * l t * np_cos (phi t))
                        / (Fin 4 * Fin pi * Fin rho * Fin (col_r af ! k) * F t * V_f_W t)"
    "Wy_qs_arr (out t) = (- Fin (real B) * l t * np_sin (phi t))
                        / (Fin 4 * Fin pi * Fin rho * Fin (col_r af ! k) * F t * V_f_W t)"
    unfolding t_def body_def by (rule element_qs)+
  have "pn_arr (out t) = Fin 0" "pt_arr (out t) = Fin 0"
    unfolding t_def body_def by (simp_all add: element_loads k_def)
  with lift qs
  show ?thesis
    unfolding c using ex example_tip_qs by blast
qed

theorem tip_induced_velocity_witness:
  "example_blade \<noteq> [] \<and> 0 < B
   \<and> Wz_qs_arr (cells (sim example_cfg example_polar example_blade (Suc 0)) ! 1 ! 0)
       = (- Fin (real B) * l (body example_cfg example_polar example_blade 0 1 0)
            * np_cos (phi (body example_cfg example_polar example_blade 0 1 0)))
         / (Fin 4 * Fin pi * Fin rho * Fin (col_r example_blade ! 1)
            * F (body example_cfg example_polar example_blade 0 1 0)
            * V_f_W (body example_cfg example_polar example_blade 0 1 0))
   \<and> pn_arr (cells (sim example_cfg example_polar example_blade (Suc 0)) ! 1 ! 0) = Fin 0"
proof -
  have h: "example_blade \<noteq> []" "0 < B"
    by (simp_all add: example_blade_def)
  have k: "length example_blade - 1 = 1"
    by simp
  from tip_induced_velocity [OF h, of example_cfg example_polar 0] h show ?thesis
    unfolding k by blast
qed

end
